theory Spec2Isabelle
  imports Complex_Main
begin

section \<open>Settlement engine and payout service: shared data model\<close>

text \<open>
  The model follows the TypeScript services of the PayFac backend: the settlement engine
  (\<open>SettlementEngineService\<close>) and the two payout services (\<open>PayoutService\<close>, one driven by
  \<open>processPayout\<close>, one by \<open>processSinglePayout\<close> with a retry sweep and a bank batch).

  Conventions.
  \<^item> A \<open>Decimal\<close> of decimal.js is a rational number: sums, differences and products of
    decimals are decimals, and the library computes them exactly as long as the result has at
    most 20 significant digits (its default precision), which is taken for granted here.
  \<^item> A JavaScript \<open>number\<close> that holds money is the decimal it prints as, so it is a rational
    too. What the language and the library do to numbers in binary floating point is not
    computed here but taken as a parameter of the functions that use it: the conversion
    \<open>Decimal.toNumber\<close>, and the addition \<open>a + b\<close> of two numbers. Negating a number and
    comparing numbers are exact.
  \<^item> A \<open>Date\<close> is a wall-clock instant in milliseconds since 1970-01-01T00:00 local time, on a
    timeline where every day has 86400000 ms.
  \<^item> A repository (database table) is the list of its rows; \<open>save\<close> replaces the row with the
    same id or appends, \<open>update(criteria, changes)\<close> rewrites every matching row.
  \<^item> \<open>x || d\<close> on an optional number is \<open>d\<close> when \<open>x\<close> is absent or zero.
  \<^item> An exception is a value \<open>Inl (Error msg)\<close>; the database is returned beside it, because
    nothing of what was saved before the throw is rolled back.
  \<^item> Calls to a repository and to the notification service return; the only calls that may
    throw are those to the transfer rails and the \<open>throw\<close> statements of the services.
\<close>

type_synonym ident = string
type_synonym Decimal = rat
type_synonym number = rat
type_synonym Date = int

datatype error = Error string

subsection \<open>Dates\<close>

definition msPerDay :: int where
  "msPerDay = 86400000"

definition dayNumber :: "Date \<Rightarrow> int" where
  "dayNumber d = d div msPerDay"

text \<open>\<open>Date.getDay()\<close>: 0 is Sunday; day number 0 (1970-01-01) is a Thursday.\<close>

definition getDay :: "Date \<Rightarrow> int" where
  "getDay d = (dayNumber d + 4) mod 7"

text \<open>\<open>Date.getDate()\<close>: the day of the month, 1..31, of the proleptic Gregorian calendar.\<close>

definition getDate :: "Date \<Rightarrow> int" where
  "getDate d =
     (let z = dayNumber d + 719468;
          doe = z mod 146097;
          yoe = (doe - doe div 1460 + doe div 36524 - doe div 146096) div 365;
          doy = doe - (365 * yoe + yoe div 4 - yoe div 100);
          mp = (5 * doy + 2) div 153
      in doy - (153 * mp + 2) div 5 + 1)"

text \<open>\<open>setHours(0, 0, 0, 0)\<close> and \<open>setHours(23, 59, 59, 999)\<close>.\<close>

definition startOfDay :: "Date \<Rightarrow> Date" where
  "startOfDay d = d - d mod msPerDay"

definition endOfDay :: "Date \<Rightarrow> Date" where
  "endOfDay d = startOfDay d + (msPerDay - 1)"

text \<open>\<open>d.setDate(d.getDate() + n)\<close>: the same time of day, \<open>n\<close> days later.\<close>

definition addDays :: "Date \<Rightarrow> int \<Rightarrow> Date" where
  "addDays d n = d + n * msPerDay"

subsection \<open>Optional numbers with a default\<close>

text \<open>\<open>x || d\<close> for a number \<open>x\<close> that may be \<open>undefined\<close>, \<open>null\<close> or \<open>0\<close>.\<close>

definition orElse :: "'a::zero option \<Rightarrow> 'a \<Rightarrow> 'a" where
  "orElse x d = (case x of None \<Rightarrow> d | Some v \<Rightarrow> if v = 0 then d else v)"

subsection \<open>Entities\<close>

record SubMerchant =
  sm_id :: ident
  sm_merchantCode :: string
  sm_status :: string
  sm_settlementCycle :: string
  sm_settlementDayOfWeek :: "int option"
  sm_settlementDayOfMonth :: "int option"
  sm_reservePercentage :: "number option"
  sm_reserveDays :: "int option"
  sm_minimumPayoutAmount :: "number option"
  sm_riskScore :: "number option"
  sm_payoutMethod :: string
  sm_bankId :: "ident option"
  sm_bankAccountNumber :: "string option"
  sm_bankAccountName :: "string option"
  sm_iban :: "string option"
  sm_instapayIpa :: "string option"
  sm_vodafoneCashNumber :: "string option"

record Transaction =
  tx_id :: ident
  tx_subMerchantId :: ident
  tx_status :: string
  tx_settlementId :: "ident option"
  tx_capturedAt :: "Date option"
  tx_settledAt :: "Date option"
  tx_amount :: number
  tx_processorFee :: "number option"
  tx_platformFee :: "number option"
  tx_netAmount :: number
  tx_transactionReference :: string
  tx_paymentMethod :: string

record Refund =
  rf_id :: ident
  rf_subMerchantId :: ident
  rf_status :: string
  rf_settlementId :: "ident option"
  rf_completedAt :: "Date option"
  rf_amount :: number
  rf_refundFee :: "number option"
  rf_netAmount :: number
  rf_refundReference :: string

record Dispute =
  dp_id :: ident
  dp_subMerchantId :: ident
  dp_status :: string
  dp_settlementId :: "ident option"
  dp_resolvedAt :: "Date option"
  dp_amount :: number
  dp_disputeFee :: "number option"
  dp_disputeReference :: string
  dp_reasonCode :: string

record Reserve =
  rs_id :: ident
  rs_subMerchantId :: ident
  rs_settlementId :: "ident option"
  rs_reserveType :: string
  rs_amount :: number
  rs_releaseDate :: Date
  rs_status :: string
  rs_releasedAt :: "Date option"

datatype SettlementStatus = CALCULATED | ST_APPROVED | ON_HOLD

text \<open>The strings of the enum, as the specification writes the statuses.\<close>

fun settlementStatusName :: "SettlementStatus \<Rightarrow> string" where
  "settlementStatusName CALCULATED = ''calculated''"
| "settlementStatusName ST_APPROVED = ''approved''"
| "settlementStatusName ON_HOLD = ''on_hold''"

record Settlement =
  st_id :: ident
  st_settlementReference :: string
  st_subMerchantId :: ident
  st_settlementDate :: Date
  st_periodStart :: Date
  st_periodEnd :: Date
  st_grossSales :: number
  st_grossRefunds :: number
  st_grossDisputes :: number
  st_grossAmount :: number
  st_processorFees :: number
  st_platformFees :: number
  st_refundFees :: number
  st_disputeFees :: number
  st_totalFees :: number
  st_reserveHeld :: number
  st_reserveReleased :: number
  st_netAmount :: number
  st_transactionCount :: nat
  st_refundCount :: nat
  st_disputeCount :: nat
  st_status :: SettlementStatus
  st_calculatedAt :: Date
  st_approvedAt :: "Date option"
  st_approvedBy :: "string option"
  st_payoutId :: "ident option"
  st_adjustmentNotes :: "string option"

record SettlementItem =
  si_settlementId :: ident
  si_itemType :: string
  si_referenceId :: "ident option"
  si_referenceNumber :: "string option"
  si_description :: string
  si_grossAmount :: number
  si_feeAmount :: number
  si_netAmount :: number

datatype PayoutStatus =
  PENDING | APPROVED | PROCESSING | SENT | COMPLETED | FAILED | RETURNED | CANCELLED

fun payoutStatusName :: "PayoutStatus \<Rightarrow> string" where
  "payoutStatusName PENDING = ''pending''"
| "payoutStatusName APPROVED = ''approved''"
| "payoutStatusName PROCESSING = ''processing''"
| "payoutStatusName SENT = ''sent''"
| "payoutStatusName COMPLETED = ''completed''"
| "payoutStatusName FAILED = ''failed''"
| "payoutStatusName RETURNED = ''returned''"
| "payoutStatusName CANCELLED = ''cancelled''"

text \<open>
  The values of the enum \<open>PayoutMethod\<close> (its declaration is in the entity file) are the
  strings the settlement engine switches on when it reads \<open>subMerchant.payoutMethod\<close> and
  passes it on as the payout's method.
\<close>

type_synonym PayoutMethod = string

definition INSTAPAY :: PayoutMethod where
  "INSTAPAY = ''instapay''"

definition BANK_TRANSFER :: PayoutMethod where
  "BANK_TRANSFER = ''bank_transfer''"

definition WALLET :: PayoutMethod where
  "WALLET = ''wallet''"

text \<open>
  The payload of a confirmation (\<open>details\<close>, \<open>data\<close>): the services read its \<open>reason\<close> and
  store the whole of it as the processor response.
\<close>

record WebhookData =
  wd_reason :: "string option"
  wd_payload :: string

record Payout =
  po_id :: ident
  po_payoutReference :: string
  po_subMerchantId :: ident
  po_settlementId :: "ident option"
  po_amount :: number
  po_fee :: number
  po_netAmount :: number
  po_payoutMethod :: PayoutMethod
  po_destinationBankId :: "ident option"
  po_destinationAccountNumber :: "string option"
  po_destinationAccountName :: "string option"
  po_destinationIban :: "string option"
  po_destinationIpa :: "string option"
  po_destinationWalletNumber :: "string option"
  po_destinationWalletProvider :: "string option"
  po_status :: PayoutStatus
  po_scheduledDate :: Date
  po_batchId :: "ident option"
  po_processorReference :: "string option"
  po_processorStatus :: "string option"
  po_processorResponse :: "WebhookData option"
  po_retryCount :: int
  po_maxRetries :: int
  po_failureCode :: "string option"
  po_failureMessage :: "string option"
  po_initiatedAt :: "Date option"
  po_completedAt :: "Date option"
  po_notes :: "string option"

record PayoutBatch =
  pb_id :: ident
  pb_batchReference :: string
  pb_payoutMethod :: PayoutMethod
  pb_scheduledDate :: Date
  pb_totalAmount :: number
  pb_totalFees :: number
  pb_payoutCount :: nat
  pb_status :: string
  pb_processedAt :: "Date option"

text \<open>What the notification service was asked to send, oldest first.\<close>

datatype Notification =
  SettlementNotification ident ident
| PayoutNotification ident ident string
| PayoutFailureAlert ident

record Database =
  db_subMerchants :: "SubMerchant list"
  db_transactions :: "Transaction list"
  db_refunds :: "Refund list"
  db_disputes :: "Dispute list"
  db_reserves :: "Reserve list"
  db_settlements :: "Settlement list"
  db_settlementItems :: "SettlementItem list"
  db_payouts :: "Payout list"
  db_payoutBatches :: "PayoutBatch list"
  db_notifications :: "Notification list"

subsection \<open>Repository operations\<close>

text \<open>\<open>repo.findOne({where: {key: k}})\<close>: the first matching row.\<close>

definition findOne :: "('a \<Rightarrow> bool) \<Rightarrow> 'a list \<Rightarrow> 'a option" where
  "findOne p rows = find p rows"

text \<open>\<open>repo.update(criteria, changes)\<close>.\<close>

definition updateWhere :: "('a \<Rightarrow> bool) \<Rightarrow> ('a \<Rightarrow> 'a) \<Rightarrow> 'a list \<Rightarrow> 'a list" where
  "updateWhere p f rows = map (\<lambda>r. if p r then f r else r) rows"

text \<open>\<open>repo.save(entity)\<close> for an entity that has an id.\<close>

definition save :: "('a \<Rightarrow> ident) \<Rightarrow> 'a \<Rightarrow> 'a list \<Rightarrow> 'a list" where
  "save key e rows =
     (if key e \<in> set (map key rows)
      then map (\<lambda>r. if key r = key e then e else r) rows
      else rows @ [e])"

text \<open>\<open>Between(lo, hi)\<close> and \<open>LessThanOrEqual(hi)\<close> on a nullable date column.\<close>

definition between :: "Date \<Rightarrow> Date \<Rightarrow> Date option \<Rightarrow> bool" where
  "between lo hi d = (case d of None \<Rightarrow> False | Some t \<Rightarrow> lo \<le> t \<and> t \<le> hi)"

section \<open>Settlement engine\<close>

subsection \<open>Settlement cycle\<close>

definition shouldSettleToday :: "SubMerchant \<Rightarrow> Date \<Rightarrow> bool" where
  "shouldSettleToday subMerchant date =
     (let dayOfWeek = getDay date;
          dayOfMonth = getDate date;
          cycle = sm_settlementCycle subMerchant
      in if cycle = ''D+0'' \<or> cycle = ''D+1'' \<or> cycle = ''D+2'' \<or> cycle = ''D+3'' then True
         else if cycle = ''WEEKLY'' then
           dayOfWeek = orElse (sm_settlementDayOfWeek subMerchant) 0
         else if cycle = ''BIWEEKLY'' then
           dayOfWeek = orElse (sm_settlementDayOfWeek subMerchant) 0
           \<and> (dayOfMonth div 7) mod 2 = 0
         else if cycle = ''MONTHLY'' then
           dayOfMonth = orElse (sm_settlementDayOfMonth subMerchant) 1
         else True)"

definition getSettlementCycleDays :: "string \<Rightarrow> int" where
  "getSettlementCycleDays cycle =
     (if cycle = ''D+0'' \<or> cycle = ''D+1'' \<or> cycle = ''D+2'' \<or> cycle = ''D+3'' then 1
      else if cycle = ''WEEKLY'' then 7
      else if cycle = ''BIWEEKLY'' then 14
      else if cycle = ''MONTHLY'' then 30
      else 1)"

definition getSettlementPeriod :: "SubMerchant \<Rightarrow> Date \<Rightarrow> Date \<times> Date" where
  "getSettlementPeriod subMerchant settlementDate =
     (let periodEnd = endOfDay settlementDate;
          periodStart = startOfDay settlementDate;
          cycleDays = getSettlementCycleDays (sm_settlementCycle subMerchant)
      in (addDays periodStart (1 - cycleDays), periodEnd))"

subsection \<open>Amounts of a settlement period\<close>

record SettlementCalculation =
  sc_subMerchantId :: ident
  sc_periodStart :: Date
  sc_periodEnd :: Date
  sc_grossSales :: Decimal
  sc_grossRefunds :: Decimal
  sc_grossDisputes :: Decimal
  sc_grossAmount :: Decimal
  sc_processorFees :: Decimal
  sc_platformFees :: Decimal
  sc_refundFees :: Decimal
  sc_disputeFees :: Decimal
  sc_totalFees :: Decimal
  sc_reserveHeld :: Decimal
  sc_reserveReleased :: Decimal
  sc_netAmount :: Decimal
  sc_transactionCount :: nat
  sc_refundCount :: nat
  sc_disputeCount :: nat
  sc_transactions :: "Transaction list"
  sc_refunds :: "Refund list"
  sc_disputes :: "Dispute list"
  sc_releasableReserves :: "Reserve list"

text \<open>
  \<open>Decimal.toDecimalPlaces(2)\<close> under the library's default rounding mode
  \<open>ROUND_HALF_UP\<close>: to the nearest hundredth, a tie away from zero.
\<close>

definition toDecimalPlaces2 :: "Decimal \<Rightarrow> Decimal" where
  "toDecimalPlaces2 x =
     (if 0 \<le> x then of_int \<lfloor>x * 100 + 1 / 2\<rfloor> / 100
      else - (of_int \<lfloor>- x * 100 + 1 / 2\<rfloor> / 100))"

text \<open>A decimal with at most two digits after the point.\<close>

definition twoPlaces :: "Decimal \<Rightarrow> bool" where
  "twoPlaces x = (of_int \<lfloor>x * 100\<rfloor> = x * 100)"

definition unsettledTransactions :: "Database \<Rightarrow> ident \<Rightarrow> Date \<Rightarrow> Date \<Rightarrow> Transaction list" where
  "unsettledTransactions db subMerchantId periodStart periodEnd =
     filter (\<lambda>t. tx_subMerchantId t = subMerchantId \<and> tx_status t = ''captured''
                 \<and> tx_settlementId t = None
                 \<and> between periodStart periodEnd (tx_capturedAt t))
       (db_transactions db)"

definition unsettledRefunds :: "Database \<Rightarrow> ident \<Rightarrow> Date \<Rightarrow> Date \<Rightarrow> Refund list" where
  "unsettledRefunds db subMerchantId periodStart periodEnd =
     filter (\<lambda>r. rf_subMerchantId r = subMerchantId \<and> rf_status r = ''completed''
                 \<and> rf_settlementId r = None
                 \<and> between periodStart periodEnd (rf_completedAt r))
       (db_refunds db)"

definition lostDisputes :: "Database \<Rightarrow> ident \<Rightarrow> Date \<Rightarrow> Date \<Rightarrow> Dispute list" where
  "lostDisputes db subMerchantId periodStart periodEnd =
     filter (\<lambda>d. dp_subMerchantId d = subMerchantId \<and> dp_status d = ''lost''
                 \<and> dp_settlementId d = None
                 \<and> between periodStart periodEnd (dp_resolvedAt d))
       (db_disputes db)"

definition releasable :: "Database \<Rightarrow> ident \<Rightarrow> Date \<Rightarrow> Reserve list" where
  "releasable db subMerchantId periodEnd =
     filter (\<lambda>r. rs_subMerchantId r = subMerchantId \<and> rs_status r = ''held''
                 \<and> rs_releaseDate r \<le> periodEnd)
       (db_reserves db)"

text \<open>The accumulating loops \<open>for (const x of xs) total = total.plus(f(x))\<close>.\<close>

definition total :: "('a \<Rightarrow> Decimal) \<Rightarrow> 'a list \<Rightarrow> Decimal" where
  "total f xs = foldl (\<lambda>acc x. acc + f x) 0 xs"

definition calculateAmounts :: "Database \<Rightarrow> ident \<Rightarrow> Date \<Rightarrow> Date \<Rightarrow> SettlementCalculation" where
  "calculateAmounts db subMerchantId periodStart periodEnd =
     (let transactions = unsettledTransactions db subMerchantId periodStart periodEnd;
          refunds = unsettledRefunds db subMerchantId periodStart periodEnd;
          disputes = lostDisputes db subMerchantId periodStart periodEnd;
          releasableReserves = releasable db subMerchantId periodEnd;
          grossSales = total tx_amount transactions;
          processorFees = total (\<lambda>t. orElse (tx_processorFee t) 0) transactions;
          platformFees = total (\<lambda>t. orElse (tx_platformFee t) 0) transactions;
          grossRefunds = total rf_amount refunds;
          refundFees = total (\<lambda>r. orElse (rf_refundFee r) 0) refunds;
          grossDisputes = total dp_amount disputes;
          disputeFees = total (\<lambda>d. orElse (dp_disputeFee d) 0) disputes;
          reserveReleased = total rs_amount releasableReserves;
          grossAmount = grossSales - grossRefunds - grossDisputes;
          totalFees = processorFees + platformFees + refundFees + disputeFees;
          netBeforeReserve = grossAmount - totalFees;
          subMerchant = findOne (\<lambda>m. sm_id m = subMerchantId) (db_subMerchants db);
          reservePercentage =
            (case subMerchant of None \<Rightarrow> 0 | Some m \<Rightarrow> orElse (sm_reservePercentage m) 0);
          reserveHeld = toDecimalPlaces2 (grossSales * reservePercentage);
          netAmount = netBeforeReserve - reserveHeld + reserveReleased
      in \<lparr> sc_subMerchantId = subMerchantId,
           sc_periodStart = periodStart,
           sc_periodEnd = periodEnd,
           sc_grossSales = grossSales,
           sc_grossRefunds = grossRefunds,
           sc_grossDisputes = grossDisputes,
           sc_grossAmount = grossAmount,
           sc_processorFees = processorFees,
           sc_platformFees = platformFees,
           sc_refundFees = refundFees,
           sc_disputeFees = disputeFees,
           sc_totalFees = totalFees,
           sc_reserveHeld = reserveHeld,
           sc_reserveReleased = reserveReleased,
           sc_netAmount = netAmount,
           sc_transactionCount = length transactions,
           sc_refundCount = length refunds,
           sc_disputeCount = length disputes,
           sc_transactions = transactions,
           sc_refunds = refunds,
           sc_disputes = disputes,
           sc_releasableReserves = releasableReserves \<rparr>)"

subsection \<open>Persisting a settlement\<close>

text \<open>
  What a run takes from outside: the clock (\<open>new Date()\<close>), \<open>Decimal.toNumber\<close>, the ids the
  database gives to the rows it inserts, the random references, the column defaults of the
  \<open>Payout\<close> entity for \<open>retryCount\<close> and \<open>maxRetries\<close> (the entity file declares them), and
  the addition \<open>+\<close> of two JavaScript numbers.
\<close>

record Env =
  env_now :: Date
  env_toNumber :: "Decimal \<Rightarrow> number"
  env_settlementId :: ident
  env_settlementReference :: string
  env_reserveId :: ident
  env_payoutId :: ident
  env_payoutReference :: string
  env_batchId :: ident
  env_batchReference :: string
  env_retryCountDefault :: int
  env_maxRetriesDefault :: int
  env_add :: "number \<Rightarrow> number \<Rightarrow> number"

definition newSettlement ::
  "Env \<Rightarrow> SubMerchant \<Rightarrow> Date \<Rightarrow> SettlementCalculation \<Rightarrow> Settlement" where
  "newSettlement env subMerchant settlementDate calculation =
     \<lparr> st_id = env_settlementId env,
       st_settlementReference = env_settlementReference env,
       st_subMerchantId = sm_id subMerchant,
       st_settlementDate = settlementDate,
       st_periodStart = sc_periodStart calculation,
       st_periodEnd = sc_periodEnd calculation,
       st_grossSales = env_toNumber env (sc_grossSales calculation),
       st_grossRefunds = env_toNumber env (sc_grossRefunds calculation),
       st_grossDisputes = env_toNumber env (sc_grossDisputes calculation),
       st_grossAmount = env_toNumber env (sc_grossAmount calculation),
       st_processorFees = env_toNumber env (sc_processorFees calculation),
       st_platformFees = env_toNumber env (sc_platformFees calculation),
       st_refundFees = env_toNumber env (sc_refundFees calculation),
       st_disputeFees = env_toNumber env (sc_disputeFees calculation),
       st_totalFees = env_toNumber env (sc_totalFees calculation),
       st_reserveHeld = env_toNumber env (sc_reserveHeld calculation),
       st_reserveReleased = env_toNumber env (sc_reserveReleased calculation),
       st_netAmount = env_toNumber env (sc_netAmount calculation),
       st_transactionCount = sc_transactionCount calculation,
       st_refundCount = sc_refundCount calculation,
       st_disputeCount = sc_disputeCount calculation,
       st_status = CALCULATED,
       st_calculatedAt = env_now env,
       st_approvedAt = None,
       st_approvedBy = None,
       st_payoutId = None,
       st_adjustmentNotes = None \<rparr>"

definition createSettlement ::
  "Env \<Rightarrow> SubMerchant \<Rightarrow> Date \<Rightarrow> SettlementCalculation \<Rightarrow> Database \<Rightarrow> Settlement \<times> Database" where
  "createSettlement env subMerchant settlementDate calculation db =
     (let settlement = newSettlement env subMerchant settlementDate calculation
      in (settlement, db\<lparr> db_settlements := db_settlements db @ [settlement] \<rparr>))"

definition settlementItems :: "Env \<Rightarrow> Settlement \<Rightarrow> SettlementCalculation \<Rightarrow> SettlementItem list" where
  "settlementItems env settlement calculation =
     map (\<lambda>tx. \<lparr> si_settlementId = st_id settlement,
                  si_itemType = ''transaction'',
                  si_referenceId = Some (tx_id tx),
                  si_referenceNumber = Some (tx_transactionReference tx),
                  si_description = ''Payment - '' @ tx_paymentMethod tx,
                  si_grossAmount = tx_amount tx,
                  si_feeAmount = env_add env (orElse (tx_processorFee tx) 0) (orElse (tx_platformFee tx) 0),
                  si_netAmount = tx_netAmount tx \<rparr>)
       (sc_transactions calculation)
     @ map (\<lambda>refund. \<lparr> si_settlementId = st_id settlement,
                        si_itemType = ''refund'',
                        si_referenceId = Some (rf_id refund),
                        si_referenceNumber = Some (rf_refundReference refund),
                        si_description = ''Refund'',
                        si_grossAmount = - rf_amount refund,
                        si_feeAmount = orElse (rf_refundFee refund) 0,
                        si_netAmount = - rf_netAmount refund \<rparr>)
         (sc_refunds calculation)
     @ map (\<lambda>dispute. \<lparr> si_settlementId = st_id settlement,
                         si_itemType = ''dispute'',
                         si_referenceId = Some (dp_id dispute),
                         si_referenceNumber = Some (dp_disputeReference dispute),
                         si_description = ''Dispute - '' @ dp_reasonCode dispute,
                         si_grossAmount = - dp_amount dispute,
                         si_feeAmount = orElse (dp_disputeFee dispute) 0,
                         si_netAmount = - env_add env (dp_amount dispute) (orElse (dp_disputeFee dispute) 0) \<rparr>)
         (sc_disputes calculation)
     @ (if 0 < sc_reserveHeld calculation
        then [\<lparr> si_settlementId = st_id settlement,
                 si_itemType = ''reserve'',
                 si_referenceId = None,
                 si_referenceNumber = None,
                 si_description = ''Rolling reserve held'',
                 si_grossAmount = 0,
                 si_feeAmount = 0,
                 si_netAmount = - env_toNumber env (sc_reserveHeld calculation) \<rparr>]
        else [])
     @ map (\<lambda>reserve. \<lparr> si_settlementId = st_id settlement,
                         si_itemType = ''reserve'',
                         si_referenceId = Some (rs_id reserve),
                         si_referenceNumber = None,
                         si_description = ''Rolling reserve released'',
                         si_grossAmount = 0,
                         si_feeAmount = 0,
                         si_netAmount = rs_amount reserve \<rparr>)
         (sc_releasableReserves calculation)"

definition createSettlementItems ::
  "Env \<Rightarrow> Settlement \<Rightarrow> SettlementCalculation \<Rightarrow> Database \<Rightarrow> Database" where
  "createSettlementItems env settlement calculation db =
     db\<lparr> db_settlementItems := db_settlementItems db @ settlementItems env settlement calculation \<rparr>"

subsection \<open>Claiming the ledger rows\<close>

definition markTransactionsSettled :: "Env \<Rightarrow> Transaction list \<Rightarrow> ident \<Rightarrow> Database \<Rightarrow> Database" where
  "markTransactionsSettled env transactions settlementId db =
     (if transactions = [] then db
      else db\<lparr> db_transactions :=
             updateWhere (\<lambda>t. tx_id t \<in> set (map tx_id transactions))
               (\<lambda>t. t\<lparr> tx_settlementId := Some settlementId, tx_settledAt := Some (env_now env) \<rparr>)
               (db_transactions db) \<rparr>)"

definition markRefundsSettled :: "Refund list \<Rightarrow> ident \<Rightarrow> Database \<Rightarrow> Database" where
  "markRefundsSettled refunds settlementId db =
     (if refunds = [] then db
      else db\<lparr> db_refunds :=
             updateWhere (\<lambda>r. rf_id r \<in> set (map rf_id refunds))
               (\<lambda>r. r\<lparr> rf_settlementId := Some settlementId \<rparr>)
               (db_refunds db) \<rparr>)"

definition markDisputesSettled :: "Dispute list \<Rightarrow> ident \<Rightarrow> Database \<Rightarrow> Database" where
  "markDisputesSettled disputes settlementId db =
     (if disputes = [] then db
      else db\<lparr> db_disputes :=
             updateWhere (\<lambda>d. dp_id d \<in> set (map dp_id disputes))
               (\<lambda>d. d\<lparr> dp_settlementId := Some settlementId \<rparr>)
               (db_disputes db) \<rparr>)"

subsection \<open>Reserves\<close>

definition releaseReserves :: "Env \<Rightarrow> Reserve list \<Rightarrow> Reserve list \<Rightarrow> Reserve list" where
  "releaseReserves env releasableReserves rows =
     foldl (\<lambda>acc reserve.
              save rs_id (reserve\<lparr> rs_status := ''released'', rs_releasedAt := Some (env_now env) \<rparr>) acc)
       rows releasableReserves"

definition processReserves ::
  "Env \<Rightarrow> SubMerchant \<Rightarrow> Settlement \<Rightarrow> SettlementCalculation \<Rightarrow> Database \<Rightarrow> Database" where
  "processReserves env subMerchant settlement calculation db =
     (let held =
            (if 0 < sc_reserveHeld calculation
             then db_reserves db @
                  [\<lparr> rs_id = env_reserveId env,
                     rs_subMerchantId = sm_id subMerchant,
                     rs_settlementId = Some (st_id settlement),
                     rs_reserveType = ''rolling'',
                     rs_amount = env_toNumber env (sc_reserveHeld calculation),
                     rs_releaseDate = addDays (env_now env) (orElse (sm_reserveDays subMerchant) 90),
                     rs_status = ''held'',
                     rs_releasedAt = None \<rparr>]
             else db_reserves db)
      in db\<lparr> db_reserves := releaseReserves env (sc_releasableReserves calculation) held \<rparr>)"

subsection \<open>Approval and the payout of a settlement\<close>

definition shouldAutoApprove :: "SubMerchant \<Rightarrow> Decimal \<Rightarrow> bool" where
  "shouldAutoApprove subMerchant netAmount =
     (let autoApproveThreshold = 50000
      in if (case sm_riskScore subMerchant of None \<Rightarrow> False | Some r \<Rightarrow> r \<noteq> 0 \<and> 70 < r)
         then False
         else netAmount \<le> autoApproveThreshold)"

definition calculatePayoutFee :: "string \<Rightarrow> number \<Rightarrow> number" where
  "calculatePayoutFee method amount =
     (if method = ''bank_transfer'' then 10
      else if method = ''instapay'' then 5
      else if method = ''wallet'' then 3
      else 10)"

record PayoutDestination =
  pd_bankId :: "ident option"
  pd_accountNumber :: "string option"
  pd_accountName :: "string option"
  pd_iban :: "string option"
  pd_swiftCode :: "string option"
  pd_ipa :: "string option"
  pd_provider :: "string option"
  pd_number :: "string option"

definition noDestination :: PayoutDestination where
  "noDestination =
     \<lparr> pd_bankId = None, pd_accountNumber = None, pd_accountName = None, pd_iban = None,
       pd_swiftCode = None, pd_ipa = None, pd_provider = None, pd_number = None \<rparr>"

definition getPayoutDestination :: "SubMerchant \<Rightarrow> error + PayoutDestination" where
  "getPayoutDestination subMerchant =
     (if sm_payoutMethod subMerchant = ''bank_transfer'' then
        Inr (noDestination\<lparr> pd_bankId := sm_bankId subMerchant,
                             pd_accountNumber := sm_bankAccountNumber subMerchant,
                             pd_accountName := sm_bankAccountName subMerchant,
                             pd_iban := sm_iban subMerchant \<rparr>)
      else if sm_payoutMethod subMerchant = ''instapay'' then
        Inr (noDestination\<lparr> pd_ipa := sm_instapayIpa subMerchant \<rparr>)
      else if sm_payoutMethod subMerchant = ''wallet'' then
        Inr (noDestination\<lparr> pd_provider := Some ''vodafone'',
                             pd_number := sm_vodafoneCashNumber subMerchant \<rparr>)
      else Inl (Error ''Invalid payout method''))"

definition getPayoutDate :: "Env \<Rightarrow> string \<Rightarrow> Date" where
  "getPayoutDate env settlementCycle =
     (if settlementCycle = ''D+0'' then env_now env
      else if settlementCycle = ''D+1'' then addDays (env_now env) 1
      else if settlementCycle = ''D+2'' then addDays (env_now env) 2
      else if settlementCycle = ''D+3'' then addDays (env_now env) 3
      else addDays (env_now env) 1)"

record CreatePayoutDto =
  dto_subMerchantId :: ident
  dto_settlementId :: "ident option"
  dto_amount :: number
  dto_fee :: "number option"
  dto_method :: PayoutMethod
  dto_destinationDetails :: PayoutDestination
  dto_scheduledDate :: "Date option"
  dto_notes :: "string option"

text \<open>The fee schedule of the payout service (its own \<open>calculatePayoutFee\<close>).\<close>

definition payoutFeeSchedule :: "PayoutMethod \<Rightarrow> number \<Rightarrow> number" where
  "payoutFeeSchedule method amount =
     (if method = INSTAPAY then 5
      else if method = BANK_TRANSFER then (if 50000 < amount then 25 else 10)
      else if method = WALLET then 3
      else 10)"

text \<open>\<open>PayoutService.createPayout\<close> of the service that has the retry sweep.\<close>

definition createPayout :: "Env \<Rightarrow> CreatePayoutDto \<Rightarrow> Database \<Rightarrow> Payout \<times> Database" where
  "createPayout env dto db =
     (let netAmount = env_toNumber env (dto_amount dto - orElse (dto_fee dto) 0);
          payout =
            \<lparr> po_id = env_payoutId env,
              po_payoutReference = env_payoutReference env,
              po_subMerchantId = dto_subMerchantId dto,
              po_settlementId = dto_settlementId dto,
              po_amount = dto_amount dto,
              po_fee = orElse (dto_fee dto) (payoutFeeSchedule (dto_method dto) (dto_amount dto)),
              po_netAmount = netAmount,
              po_payoutMethod = dto_method dto,
              po_destinationBankId = pd_bankId (dto_destinationDetails dto),
              po_destinationAccountNumber = pd_accountNumber (dto_destinationDetails dto),
              po_destinationAccountName = pd_accountName (dto_destinationDetails dto),
              po_destinationIban = pd_iban (dto_destinationDetails dto),
              po_destinationIpa = pd_ipa (dto_destinationDetails dto),
              po_destinationWalletNumber = pd_number (dto_destinationDetails dto),
              po_destinationWalletProvider = pd_provider (dto_destinationDetails dto),
              po_status = PENDING,
              po_scheduledDate = (case dto_scheduledDate dto of None \<Rightarrow> env_now env | Some d \<Rightarrow> d),
              po_batchId = None,
              po_processorReference = None,
              po_processorStatus = None,
              po_processorResponse = None,
              po_retryCount = env_retryCountDefault env,
              po_maxRetries = env_maxRetriesDefault env,
              po_failureCode = None,
              po_failureMessage = None,
              po_initiatedAt = None,
              po_completedAt = None,
              po_notes = dto_notes dto \<rparr>
      in (payout, db\<lparr> db_payouts := db_payouts db @ [payout] \<rparr>))"

definition createPayoutForSettlement :: "Env \<Rightarrow> Settlement \<Rightarrow> Database \<Rightarrow> (error + Payout) \<times> Database" where
  "createPayoutForSettlement env settlement db =
     (case findOne (\<lambda>m. sm_id m = st_subMerchantId settlement) (db_subMerchants db) of
        None \<Rightarrow> (Inl (Error ''TypeError: Cannot read properties of null''), db)
      | Some subMerchant \<Rightarrow>
          let payoutFee = calculatePayoutFee (sm_payoutMethod subMerchant) (st_netAmount settlement)
          in (case getPayoutDestination subMerchant of
                Inl e \<Rightarrow> (Inl e, db)
              | Inr destination \<Rightarrow>
                  let (payout, db1) =
                        createPayout env
                          \<lparr> dto_subMerchantId = sm_id subMerchant,
                            dto_settlementId = Some (st_id settlement),
                            dto_amount = st_netAmount settlement,
                            dto_fee = Some payoutFee,
                            dto_method = sm_payoutMethod subMerchant,
                            dto_destinationDetails = destination,
                            dto_scheduledDate = Some (getPayoutDate env (sm_settlementCycle subMerchant)),
                            dto_notes = None \<rparr> db;
                      db2 = db1\<lparr> db_settlements :=
                                  save st_id (settlement\<lparr> st_payoutId := Some (po_id payout) \<rparr>)
                                    (db_settlements db1) \<rparr>
                  in (Inr payout, db2)))"

definition approveSettlement :: "Env \<Rightarrow> ident \<Rightarrow> string \<Rightarrow> Database \<Rightarrow> (error + Settlement) \<times> Database" where
  "approveSettlement env settlementId approvedBy db =
     (case findOne (\<lambda>s. st_id s = settlementId) (db_settlements db) of
        None \<Rightarrow> (Inl (Error ''Settlement not found''), db)
      | Some settlement \<Rightarrow>
          if st_status settlement \<noteq> CALCULATED
          then (Inl (Error (''Cannot approve settlement in status: ''
                            @ settlementStatusName (st_status settlement))), db)
          else
            let approved = settlement\<lparr> st_status := ST_APPROVED,
                                       st_approvedAt := Some (env_now env),
                                       st_approvedBy := Some approvedBy \<rparr>;
                db1 = db\<lparr> db_settlements := save st_id approved (db_settlements db) \<rparr>
            in (case createPayoutForSettlement env approved db1 of
                  (Inl e, db2) \<Rightarrow> (Inl e, db2)
                | (Inr payout, db2) \<Rightarrow>
                    (Inr (approved\<lparr> st_payoutId := Some (po_id payout) \<rparr>), db2)))"

subsection \<open>One sub-merchant, one settlement date\<close>

definition calculateSettlementForMerchant ::
  "Env \<Rightarrow> SubMerchant \<Rightarrow> Date \<Rightarrow> Database \<Rightarrow> (error + Settlement option) \<times> Database" where
  "calculateSettlementForMerchant env subMerchant settlementDate db =
     (let (periodStart, periodEnd) = getSettlementPeriod subMerchant settlementDate;
          calculation = calculateAmounts db (sm_id subMerchant) periodStart periodEnd
      in if sc_transactionCount calculation = 0 \<and> sc_refundCount calculation = 0
            \<and> sc_disputeCount calculation = 0 \<and> length (sc_releasableReserves calculation) = 0
         then (Inr None, db)
         else if sc_netAmount calculation < orElse (sm_minimumPayoutAmount subMerchant) 100
         then (Inr None, db)
         else
           let (settlement, db1) = createSettlement env subMerchant settlementDate calculation db;
               db2 = createSettlementItems env settlement calculation db1;
               db3 = markTransactionsSettled env (sc_transactions calculation) (st_id settlement) db2;
               db4 = markRefundsSettled (sc_refunds calculation) (st_id settlement) db3;
               db5 = markDisputesSettled (sc_disputes calculation) (st_id settlement) db4;
               db6 = processReserves env subMerchant settlement calculation db5;
               (approval, db7) =
                 (if shouldAutoApprove subMerchant (sc_netAmount calculation)
                  then (case approveSettlement env (st_id settlement) ''system'' db6 of
                          (Inl e, d) \<Rightarrow> (Some e, d)
                        | (Inr _, d) \<Rightarrow> (None, d))
                  else (None, db6))
           in (case approval of
                 Some e \<Rightarrow> (Inl e, db7)
               | None \<Rightarrow>
                   (Inr (Some settlement),
                    db7\<lparr> db_notifications :=
                          db_notifications db7
                          @ [SettlementNotification (sm_id subMerchant) (st_id settlement)] \<rparr>)))"

subsection \<open>Rejecting a settlement\<close>

definition rejectSettlement :: "ident \<Rightarrow> string \<Rightarrow> string \<Rightarrow> Database \<Rightarrow> (error + Settlement) \<times> Database" where
  "rejectSettlement settlementId rejectedBy reason db =
     (case findOne (\<lambda>s. st_id s = settlementId) (db_settlements db) of
        None \<Rightarrow> (Inl (Error ''Settlement not found''), db)
      | Some settlement \<Rightarrow>
          let db1 = db\<lparr> db_transactions :=
                        updateWhere (\<lambda>t. tx_settlementId t = Some settlementId)
                          (\<lambda>t. t\<lparr> tx_settlementId := None, tx_settledAt := None \<rparr>)
                          (db_transactions db) \<rparr>;
              db2 = db1\<lparr> db_refunds :=
                          updateWhere (\<lambda>r. rf_settlementId r = Some settlementId)
                            (\<lambda>r. r\<lparr> rf_settlementId := None \<rparr>)
                            (db_refunds db1) \<rparr>;
              rejected = settlement\<lparr> st_status := ON_HOLD, st_adjustmentNotes := Some reason \<rparr>
          in (Inr rejected, db2\<lparr> db_settlements := save st_id rejected (db_settlements db2) \<rparr>))"

section \<open>Payout services\<close>

subsection \<open>The transfer rails\<close>

text \<open>
  The integration services (\<open>InstapayService\<close>, \<open>BankTransferService\<close>, \<open>WalletPayoutService\<close>) are
  collaborators outside the repository: each call either throws or returns a result, of which
  the payout services read the fields below. A call is a function of the payout it is made for
  (which carries the reference, the amount, the destination and the retry count so far).
\<close>

record TransferResult =
  tr_success :: bool
  tr_transactionId :: "string option"
  tr_transactionReference :: "string option"
  tr_message :: "string option"

record Rails =
  instapay_sendPayment :: "Payout \<Rightarrow> error + TransferResult"
  bank_initiateTransfer :: "Payout \<Rightarrow> error + TransferResult"
  wallet_sendToWallet :: "Payout \<Rightarrow> error + TransferResult"
  bank_submitBatch :: "string \<Rightarrow> Payout list \<Rightarrow> error + bool"

fun errorMessage :: "error \<Rightarrow> string" where
  "errorMessage (Error m) = m"

text \<open>\<open>s || d\<close> for an optional string: absent and empty strings are falsy.\<close>

definition orText :: "string option \<Rightarrow> string \<Rightarrow> string" where
  "orText s d = (case s of None \<Rightarrow> d | Some v \<Rightarrow> if v = [] then d else v)"

subsection \<open>The service of \<open>payfac/payout/payout.service.ts\<close>\<close>

record DispatchResult =
  dr_success :: bool
  dr_reference :: "string option"
  dr_error :: "string option"

record PayfacPayoutResult =
  ppr_success :: bool
  ppr_payoutId :: ident
  ppr_processorReference :: "string option"
  ppr_error :: "string option"

definition payfac_processInstapayPayout :: "Rails \<Rightarrow> Payout \<Rightarrow> DispatchResult" where
  "payfac_processInstapayPayout rails payout =
     (case instapay_sendPayment rails payout of
        Inr result \<Rightarrow>
          \<lparr> dr_success = True, dr_reference = tr_transactionReference result, dr_error = None \<rparr>
      | Inl e \<Rightarrow>
          \<lparr> dr_success = False, dr_reference = None, dr_error = Some (errorMessage e) \<rparr>)"

definition payfac_processBankTransferPayout :: "Rails \<Rightarrow> Payout \<Rightarrow> DispatchResult" where
  "payfac_processBankTransferPayout rails payout =
     (case bank_initiateTransfer rails payout of
        Inr result \<Rightarrow>
          \<lparr> dr_success = True, dr_reference = tr_transactionReference result, dr_error = None \<rparr>
      | Inl e \<Rightarrow>
          \<lparr> dr_success = False, dr_reference = None, dr_error = Some (errorMessage e) \<rparr>)"

definition payfac_processWalletPayout :: "Payout \<Rightarrow> DispatchResult" where
  "payfac_processWalletPayout payout =
     \<lparr> dr_success = False, dr_reference = None,
       dr_error = Some ''Wallet payouts not yet implemented'' \<rparr>"

text \<open>The \<open>switch\<close> on the payout method; the default case throws.\<close>

definition payfac_dispatch :: "Rails \<Rightarrow> Payout \<Rightarrow> error + DispatchResult" where
  "payfac_dispatch rails payout =
     (if po_payoutMethod payout = INSTAPAY then Inr (payfac_processInstapayPayout rails payout)
      else if po_payoutMethod payout = BANK_TRANSFER then Inr (payfac_processBankTransferPayout rails payout)
      else if po_payoutMethod payout = WALLET then Inr (payfac_processWalletPayout payout)
      else Inl (Error (''Unsupported payout method: '' @ po_payoutMethod payout)))"

text \<open>The \<open>catch\<close> block of \<open>processPayout\<close>.\<close>

definition processPayout_failed :: "Payout \<Rightarrow> string \<Rightarrow> Database \<Rightarrow> PayfacPayoutResult \<times> Database" where
  "processPayout_failed payout message db =
     (let p1 = payout\<lparr> po_retryCount := po_retryCount payout + 1,
                       po_failureCode := Some ''PROCESSING_ERROR'',
                       po_failureMessage := Some message \<rparr>;
          (p2, db1) =
            (if po_maxRetries p1 \<le> po_retryCount p1
             then (p1\<lparr> po_status := FAILED \<rparr>,
                   db\<lparr> db_notifications := db_notifications db @ [PayoutFailureAlert (po_id p1)] \<rparr>)
             else (p1\<lparr> po_status := APPROVED \<rparr>, db))
      in (\<lparr> ppr_success = False, ppr_payoutId = po_id p2, ppr_processorReference = None,
            ppr_error = Some message \<rparr>,
          db1\<lparr> db_payouts := save po_id p2 (db_payouts db1) \<rparr>))"

definition processPayout :: "Env \<Rightarrow> Rails \<Rightarrow> ident \<Rightarrow> Database \<Rightarrow> PayfacPayoutResult \<times> Database" where
  "processPayout env rails payoutId db =
     (case findOne (\<lambda>p. po_id p = payoutId) (db_payouts db) of
        None \<Rightarrow>
          (\<lparr> ppr_success = False, ppr_payoutId = payoutId, ppr_processorReference = None,
             ppr_error = Some ''Payout not found'' \<rparr>, db)
      | Some found \<Rightarrow>
          if po_status found \<noteq> APPROVED
          then (\<lparr> ppr_success = False, ppr_payoutId = payoutId, ppr_processorReference = None,
                  ppr_error = Some (''Invalid status: '' @ payoutStatusName (po_status found)) \<rparr>, db)
          else
            let payout = found\<lparr> po_status := PROCESSING, po_initiatedAt := Some (env_now env) \<rparr>;
                db1 = db\<lparr> db_payouts := save po_id payout (db_payouts db) \<rparr>
            in (case payfac_dispatch rails payout of
                  Inl e \<Rightarrow> processPayout_failed payout (errorMessage e) db1
                | Inr result \<Rightarrow>
                    if dr_success result
                    then
                      let sent = payout\<lparr> po_status := SENT,
                                         po_processorReference := dr_reference result,
                                         po_processorStatus := Some ''sent'' \<rparr>
                      in (\<lparr> ppr_success = True, ppr_payoutId = po_id sent,
                            ppr_processorReference = dr_reference result, ppr_error = None \<rparr>,
                          db1\<lparr> db_payouts := save po_id sent (db_payouts db1),
                               db_notifications :=
                                 db_notifications db1
                                 @ [PayoutNotification (po_subMerchantId sent) (po_id sent) ''sent''] \<rparr>)
                    else processPayout_failed payout (orText (dr_error result) []) db1))"

definition confirmPayoutCompletion ::
  "Env \<Rightarrow> string \<Rightarrow> string \<Rightarrow> WebhookData option \<Rightarrow> Database \<Rightarrow> Database" where
  "confirmPayoutCompletion env processorReference status details db =
     (case findOne (\<lambda>p. po_processorReference p = Some processorReference) (db_payouts db) of
        None \<Rightarrow> db
      | Some payout \<Rightarrow>
          if status = ''completed''
          then
            let completed = payout\<lparr> po_status := COMPLETED,
                                    po_completedAt := Some (env_now env),
                                    po_processorStatus := Some ''completed'',
                                    po_processorResponse := details \<rparr>
            in db\<lparr> db_notifications :=
                      db_notifications db
                      @ [PayoutNotification (po_subMerchantId completed) (po_id completed) ''completed''],
                    db_payouts := save po_id completed (db_payouts db) \<rparr>
          else
            let failed = payout\<lparr> po_status := FAILED,
                                 po_processorStatus := Some ''failed'',
                                 po_processorResponse := details,
                                 po_failureMessage :=
                                   Some (orText (case details of None \<Rightarrow> None | Some d \<Rightarrow> wd_reason d)
                                           ''Transfer failed'') \<rparr>
            in db\<lparr> db_notifications := db_notifications db @ [PayoutFailureAlert (po_id failed)],
                    db_payouts := save po_id failed (db_payouts db) \<rparr>)"

subsection \<open>The service with the retry sweep and the bank batch\<close>

record PayoutResult =
  pr_success :: bool
  pr_payoutId :: ident
  pr_processorReference :: "string option"
  pr_status :: PayoutStatus
  pr_message :: "string option"

text \<open>
  \<open>notifyPayoutSuccess\<close> and \<open>notifyPayoutFailure\<close>: the sub-merchant is the loaded relation
  or is looked up by id; nothing is sent when there is none.
\<close>

definition notifyPayout :: "string \<Rightarrow> Payout \<Rightarrow> Database \<Rightarrow> Database" where
  "notifyPayout kind payout db =
     (case findOne (\<lambda>m. sm_id m = po_subMerchantId payout) (db_subMerchants db) of
        None \<Rightarrow> db
      | Some subMerchant \<Rightarrow>
          db\<lparr> db_notifications :=
                db_notifications db @ [PayoutNotification (sm_id subMerchant) (po_id payout) kind] \<rparr>)"

definition notifyPayoutSuccess :: "Payout \<Rightarrow> Database \<Rightarrow> Database" where
  "notifyPayoutSuccess = notifyPayout ''success''"

definition notifyPayoutFailure :: "Payout \<Rightarrow> Database \<Rightarrow> Database" where
  "notifyPayoutFailure = notifyPayout ''failed''"

definition transferResult :: "Payout \<Rightarrow> PayoutStatus \<Rightarrow> TransferResult \<Rightarrow> PayoutResult" where
  "transferResult payout onSuccess result =
     \<lparr> pr_success = tr_success result,
       pr_payoutId = po_id payout,
       pr_processorReference = tr_transactionId result,
       pr_status = (if tr_success result then onSuccess else FAILED),
       pr_message = tr_message result \<rparr>"

definition processInstapayPayout :: "Rails \<Rightarrow> Payout \<Rightarrow> error + PayoutResult" where
  "processInstapayPayout rails payout =
     (if po_destinationIpa payout = None \<or> po_destinationIpa payout = Some []
      then Inl (Error ''InstaPay IPA address is required'')
      else map_sum id (transferResult payout COMPLETED) (instapay_sendPayment rails payout))"

definition processBankTransferPayout :: "Rails \<Rightarrow> Payout \<Rightarrow> error + PayoutResult" where
  "processBankTransferPayout rails payout =
     map_sum id (transferResult payout SENT) (bank_initiateTransfer rails payout)"

definition processWalletPayout :: "Rails \<Rightarrow> Payout \<Rightarrow> error + PayoutResult" where
  "processWalletPayout rails payout =
     map_sum id (transferResult payout COMPLETED) (wallet_sendToWallet rails payout)"

definition dispatch :: "Rails \<Rightarrow> Payout \<Rightarrow> error + PayoutResult" where
  "dispatch rails payout =
     (if po_payoutMethod payout = INSTAPAY then processInstapayPayout rails payout
      else if po_payoutMethod payout = BANK_TRANSFER then processBankTransferPayout rails payout
      else if po_payoutMethod payout = WALLET then processWalletPayout rails payout
      else Inl (Error (''Unsupported payout method: '' @ po_payoutMethod payout)))"

definition processSinglePayout :: "Env \<Rightarrow> Rails \<Rightarrow> Payout \<Rightarrow> Database \<Rightarrow> PayoutResult \<times> Database" where
  "processSinglePayout env rails given db =
     (let payout = given\<lparr> po_status := PROCESSING, po_initiatedAt := Some (env_now env) \<rparr>;
          db1 = db\<lparr> db_payouts := save po_id payout (db_payouts db) \<rparr>
      in (case dispatch rails payout of
            Inr result \<Rightarrow>
              if pr_success result
              then
                let completed = payout\<lparr> po_status := COMPLETED,
                                        po_completedAt := Some (env_now env),
                                        po_processorReference := pr_processorReference result \<rparr>;
                    db2 = notifyPayoutSuccess completed db1
                in (result, db2\<lparr> db_payouts := save po_id completed (db_payouts db2) \<rparr>)
              else
                let failed = payout\<lparr> po_status := FAILED,
                                     po_failureMessage := pr_message result,
                                     po_retryCount := po_retryCount payout + 1 \<rparr>;
                    db2 = (if po_maxRetries failed \<le> po_retryCount failed
                           then notifyPayoutFailure failed db1 else db1)
                in (result, db2\<lparr> db_payouts := save po_id failed (db_payouts db2) \<rparr>)
          | Inl e \<Rightarrow>
              let failed = payout\<lparr> po_status := FAILED,
                                   po_failureMessage := Some (errorMessage e),
                                   po_retryCount := po_retryCount payout + 1 \<rparr>
              in (\<lparr> pr_success = False, pr_payoutId = po_id failed, pr_processorReference = None,
                    pr_status = FAILED, pr_message = Some (errorMessage e) \<rparr>,
                  db1\<lparr> db_payouts := save po_id failed (db_payouts db1) \<rparr>)))"

text \<open>The payouts the retry sweep re-attempts.\<close>

definition retriable :: "Database \<Rightarrow> Payout list" where
  "retriable db =
     filter (\<lambda>p. po_retryCount p < po_maxRetries p)
       (filter (\<lambda>p. po_status p = FAILED) (db_payouts db))"

definition retryFailedPayouts :: "Env \<Rightarrow> Rails \<Rightarrow> Database \<Rightarrow> Database" where
  "retryFailedPayouts env rails db =
     foldl (\<lambda>d payout. snd (processSinglePayout env rails payout d)) db (retriable db)"

text \<open>\<open>payouts.reduce((sum, p) => sum + f(p), 0)\<close>, a sum of JavaScript numbers.\<close>

definition reduceSum :: "Env \<Rightarrow> ('a \<Rightarrow> number) \<Rightarrow> 'a list \<Rightarrow> number" where
  "reduceSum env f xs = foldl (\<lambda>sum p. env_add env sum (f p)) 0 xs"

definition markBatchFailed :: "string \<Rightarrow> Payout list \<Rightarrow> Payout list \<Rightarrow> Payout list" where
  "markBatchFailed message payouts rows =
     foldl (\<lambda>acc payout.
              save po_id (payout\<lparr> po_status := FAILED,
                                  po_failureMessage := Some message,
                                  po_retryCount := po_retryCount payout + 1 \<rparr>) acc)
       rows payouts"

definition processBankTransferBatch :: "Env \<Rightarrow> Rails \<Rightarrow> Payout list \<Rightarrow> Database \<Rightarrow> Database" where
  "processBankTransferBatch env rails payouts db =
     (let batch = \<lparr> pb_id = env_batchId env,
                    pb_batchReference = env_batchReference env,
                    pb_payoutMethod = BANK_TRANSFER,
                    pb_scheduledDate = env_now env,
                    pb_totalAmount = reduceSum env po_netAmount payouts,
                    pb_totalFees = reduceSum env po_fee payouts,
                    pb_payoutCount = length payouts,
                    pb_status = ''processing'',
                    pb_processedAt = None \<rparr>;
          db1 = db\<lparr> db_payoutBatches := db_payoutBatches db @ [batch] \<rparr>;
          db2 = db1\<lparr> db_payouts :=
                      updateWhere (\<lambda>p. po_id p \<in> set (map po_id payouts))
                        (\<lambda>p. p\<lparr> po_batchId := Some (pb_id batch) \<rparr>) (db_payouts db1) \<rparr>
      in (case bank_submitBatch rails (pb_batchReference batch) payouts of
            Inr success \<Rightarrow>
              if success
              then
                let processed = batch\<lparr> pb_status := ''processing'',
                                        pb_processedAt := Some (env_now env) \<rparr>;
                    db3 = db2\<lparr> db_payouts :=
                                updateWhere (\<lambda>p. po_batchId p = Some (pb_id batch))
                                  (\<lambda>p. p\<lparr> po_status := SENT \<rparr>) (db_payouts db2) \<rparr>
                in db3\<lparr> db_payoutBatches := save pb_id processed (db_payoutBatches db3) \<rparr>
              else
                db2\<lparr> db_payoutBatches :=
                      save pb_id (batch\<lparr> pb_status := ''failed'' \<rparr>) (db_payoutBatches db2) \<rparr>
          | Inl e \<Rightarrow>
              let db3 = db2\<lparr> db_payoutBatches :=
                              save pb_id (batch\<lparr> pb_status := ''failed'' \<rparr>) (db_payoutBatches db2) \<rparr>
              in db3\<lparr> db_payouts := markBatchFailed (errorMessage e) payouts (db_payouts db3) \<rparr>))"

definition handlePayoutWebhook ::
  "Env \<Rightarrow> string \<Rightarrow> string \<Rightarrow> string \<Rightarrow> WebhookData option \<Rightarrow> Database \<Rightarrow> (error + unit) \<times> Database" where
  "handlePayoutWebhook env provider reference status data db =
     (case findOne (\<lambda>p. po_processorReference p = Some reference) (db_payouts db) of
        None \<Rightarrow> (Inr (), db)
      | Some payout \<Rightarrow>
          if status = ''completed'' \<or> status = ''success''
          then
            let completed = payout\<lparr> po_status := COMPLETED, po_completedAt := Some (env_now env) \<rparr>;
                db1 = notifyPayoutSuccess completed db
            in (Inr (), db1\<lparr> db_payouts :=
                             save po_id (completed\<lparr> po_processorResponse := data \<rparr>) (db_payouts db1) \<rparr>)
          else if status = ''failed'' \<or> status = ''rejected''
          then
            (case data of
               None \<Rightarrow> (Inl (Error ''TypeError: Cannot read properties of null''), db)
             | Some d \<Rightarrow>
                 let failed = payout\<lparr> po_status := FAILED,
                                      po_failureMessage := Some (orText (wd_reason d) ''Payment failed''),
                                      po_retryCount := po_retryCount payout + 1 \<rparr>;
                     db1 = (if po_maxRetries failed \<le> po_retryCount failed
                            then notifyPayoutFailure failed db else db)
                 in (Inr (), db1\<lparr> db_payouts :=
                                  save po_id (failed\<lparr> po_processorResponse := data \<rparr>) (db_payouts db1) \<rparr>))
          else if status = ''returned''
          then
            (case data of
               None \<Rightarrow> (Inl (Error ''TypeError: Cannot read properties of null''), db)
             | Some d \<Rightarrow>
                 let returned = payout\<lparr> po_status := RETURNED,
                                        po_failureMessage := Some (orText (wd_reason d) ''Payment returned'') \<rparr>;
                     db1 = notifyPayoutFailure returned db
                 in (Inr (), db1\<lparr> db_payouts :=
                                  save po_id (returned\<lparr> po_processorResponse := data \<rparr>) (db_payouts db1) \<rparr>))
          else
            (Inr (), db\<lparr> db_payouts :=
                         save po_id (payout\<lparr> po_processorResponse := data \<rparr>) (db_payouts db) \<rparr>))"

section \<open>Example data\<close>

definition exampleMerchant :: "string \<Rightarrow> SubMerchant" where
  "exampleMerchant cycle =
     \<lparr> sm_id = ''m1'', sm_merchantCode = ''PH-001'', sm_status = ''active'',
       sm_settlementCycle = cycle,
       sm_settlementDayOfWeek = Some 0, sm_settlementDayOfMonth = Some 1,
       sm_reservePercentage = Some (5 / 100), sm_reserveDays = Some 90,
       sm_minimumPayoutAmount = Some 50, sm_riskScore = Some 10,
       sm_payoutMethod = ''bank_transfer'',
       sm_bankId = Some ''bank1'', sm_bankAccountNumber = Some ''0001'',
       sm_bankAccountName = Some ''Pharmacy'', sm_iban = None,
       sm_instapayIpa = None, sm_vodafoneCashNumber = None \<rparr>"

text \<open>Sunday 2024-01-07, 00:00, and the days after it.\<close>

definition sunday :: Date where
  "sunday = 1704585600000"

subsection \<open>The week of the month, as the specification words the biweekly rule\<close>

text \<open>
  The specification asks, for the biweekly cycle, that the parity of the ISO week of the month
  match. Following its words: ISO weeks run from Monday to Sunday, a week belongs to the
  month its Thursday lies in, and the weeks of a month are counted from one. A second,
  plainer count takes the days 1 to 7 as week one, 8 to 14 as week two, and so on. The rule
  of the specification is then: the weekday is the configured one and the week of the month
  has the required parity.
\<close>

definition spec_isoWeekOfMonth :: "Date \<Rightarrow> int" where
  "spec_isoWeekOfMonth d =
     (let mondayBased = (getDay d + 6) mod 7;
          thursday = addDays d (3 - mondayBased)
      in (getDate thursday - 1) div 7 + 1)"

definition spec_plainWeekOfMonth :: "Date \<Rightarrow> int" where
  "spec_plainWeekOfMonth d = (getDate d - 1) div 7 + 1"

definition spec_biweeklyDue :: "(Date \<Rightarrow> int) \<Rightarrow> int \<Rightarrow> SubMerchant \<Rightarrow> Date \<Rightarrow> bool" where
  "spec_biweeklyDue weekOfMonth parity subMerchant date =
     (getDay date = orElse (sm_settlementDayOfWeek subMerchant) 0
      \<and> weekOfMonth date mod 2 = parity)"

text \<open>Biweekly sub-merchants settling on Sundays and on Saturdays.\<close>

definition biweeklySunday :: SubMerchant where
  "biweeklySunday = exampleMerchant ''BIWEEKLY''"

definition biweeklySaturday :: SubMerchant where
  "biweeklySaturday = (exampleMerchant ''BIWEEKLY'')\<lparr> sm_settlementDayOfWeek := Some 6 \<rparr>"

definition exampleTransaction :: "ident \<Rightarrow> number \<Rightarrow> Transaction" where
  "exampleTransaction i amount =
     \<lparr> tx_id = i, tx_subMerchantId = ''m1'', tx_status = ''captured'', tx_settlementId = None,
       tx_capturedAt = Some (sunday + 1000), tx_settledAt = None, tx_amount = amount,
       tx_processorFee = Some (3 / 2), tx_platformFee = None, tx_netAmount = amount - 3 / 2,
       tx_transactionReference = ''T-'' @ i, tx_paymentMethod = ''card'' \<rparr>"

definition exampleRefund :: Refund where
  "exampleRefund =
     \<lparr> rf_id = ''r1'', rf_subMerchantId = ''m1'', rf_status = ''completed'', rf_settlementId = None,
       rf_completedAt = Some (sunday + 2000), rf_amount = 20, rf_refundFee = Some 1,
       rf_netAmount = 20, rf_refundReference = ''R-1'' \<rparr>"

definition exampleDispute :: Dispute where
  "exampleDispute =
     \<lparr> dp_id = ''d1'', dp_subMerchantId = ''m1'', dp_status = ''lost'', dp_settlementId = None,
       dp_resolvedAt = Some (sunday + 3000), dp_amount = 30, dp_disputeFee = Some 15,
       dp_disputeReference = ''D-1'', dp_reasonCode = ''4837'' \<rparr>"

definition exampleReserve :: Reserve where
  "exampleReserve =
     \<lparr> rs_id = ''v1'', rs_subMerchantId = ''m1'', rs_settlementId = Some ''s0'',
       rs_reserveType = ''rolling'', rs_amount = 12, rs_releaseDate = sunday - 1,
       rs_status = ''held'', rs_releasedAt = None \<rparr>"

definition emptyDb :: Database where
  "emptyDb =
     \<lparr> db_subMerchants = [], db_transactions = [], db_refunds = [], db_disputes = [],
       db_reserves = [], db_settlements = [], db_settlementItems = [], db_payouts = [],
       db_payoutBatches = [], db_notifications = [] \<rparr>"

definition exampleLedger :: "Transaction list \<Rightarrow> Database" where
  "exampleLedger txs =
     emptyDb\<lparr> db_subMerchants := [exampleMerchant ''D+1''],
              db_transactions := txs,
              db_refunds := [exampleRefund],
              db_disputes := [exampleDispute],
              db_reserves := [exampleReserve] \<rparr>"

definition exampleEnv :: Env where
  "exampleEnv =
     \<lparr> env_now = sunday + 2 * msPerDay, env_toNumber = (\<lambda>x. x),
       env_settlementId = ''s1'', env_settlementReference = ''STL-20240109-AAAAAA'',
       env_reserveId = ''v2'', env_payoutId = ''p9'', env_payoutReference = ''PAY-20240109-AAAAAA'',
       env_batchId = ''b1'', env_batchReference = ''BATCH-20240109-AAAA'',
       env_retryCountDefault = 0, env_maxRetriesDefault = 3,
       env_add = (\<lambda>a b. a + b) \<rparr>"

definition examplePayout :: "ident \<Rightarrow> PayoutMethod \<Rightarrow> PayoutStatus \<Rightarrow> Payout" where
  "examplePayout i method status =
     \<lparr> po_id = i, po_payoutReference = ''PAY-'' @ i, po_subMerchantId = ''m1'',
       po_settlementId = None, po_amount = 1000, po_fee = 5, po_netAmount = 995,
       po_payoutMethod = method,
       po_destinationBankId = Some ''bank1'', po_destinationAccountNumber = Some ''0001'',
       po_destinationAccountName = Some ''Pharmacy'', po_destinationIban = None,
       po_destinationIpa = Some ''pharmacy@instapay'',
       po_destinationWalletNumber = None, po_destinationWalletProvider = None,
       po_status = status, po_scheduledDate = sunday, po_batchId = None,
       po_processorReference = Some (''ref-'' @ i), po_processorStatus = None,
       po_processorResponse = None, po_retryCount = 0, po_maxRetries = 3,
       po_failureCode = None, po_failureMessage = None, po_initiatedAt = None,
       po_completedAt = None, po_notes = None \<rparr>"

definition payoutsDb :: "Payout list \<Rightarrow> Database" where
  "payoutsDb payouts =
     emptyDb\<lparr> db_subMerchants := [exampleMerchant ''D+1''], db_payouts := payouts \<rparr>"

text \<open>Rails on which every transfer is refused, and rails on which every call throws.\<close>

definition refusingRails :: Rails where
  "refusingRails =
     (let refused = \<lparr> tr_success = False, tr_transactionId = None,
                       tr_transactionReference = None, tr_message = Some ''declined'' \<rparr>
      in \<lparr> instapay_sendPayment = (\<lambda>p. Inr refused),
           bank_initiateTransfer = (\<lambda>p. Inr refused),
           wallet_sendToWallet = (\<lambda>p. Inr refused),
           bank_submitBatch = (\<lambda>reference payouts. Inr False) \<rparr>)"

definition throwingRails :: Rails where
  "throwingRails =
     \<lparr> instapay_sendPayment = (\<lambda>p. Inl (Error ''timeout'')),
       bank_initiateTransfer = (\<lambda>p. Inl (Error ''timeout'')),
       wallet_sendToWallet = (\<lambda>p. Inl (Error ''timeout'')),
       bank_submitBatch = (\<lambda>reference payouts. Inl (Error ''timeout'')) \<rparr>"

definition acceptingRails :: Rails where
  "acceptingRails =
     (let accepted = \<lparr> tr_success = True, tr_transactionId = Some ''X1'',
                        tr_transactionReference = Some ''X1'', tr_message = None \<rparr>
      in \<lparr> instapay_sendPayment = (\<lambda>p. Inr accepted),
           bank_initiateTransfer = (\<lambda>p. Inr accepted),
           wallet_sendToWallet = (\<lambda>p. Inr accepted),
           bank_submitBatch = (\<lambda>reference payouts. Inr True) \<rparr>)"

text \<open>The ledger amounts and fees of a database all have at most two decimal places.\<close>

definition ledgerTwoPlaces :: "Database \<Rightarrow> bool" where
  "ledgerTwoPlaces db =
     (list_all (\<lambda>t. twoPlaces (tx_amount t) \<and> twoPlaces (orElse (tx_processorFee t) 0)
                    \<and> twoPlaces (orElse (tx_platformFee t) 0)) (db_transactions db)
      \<and> list_all (\<lambda>r. twoPlaces (rf_amount r) \<and> twoPlaces (orElse (rf_refundFee r) 0)) (db_refunds db)
      \<and> list_all (\<lambda>d. twoPlaces (dp_amount d) \<and> twoPlaces (orElse (dp_disputeFee d) 0)) (db_disputes db)
      \<and> list_all (\<lambda>r. twoPlaces (rs_amount r)) (db_reserves db))"

text \<open>\<open>Decimal.toNumber\<close> loses nothing on the listed amounts.\<close>

definition exactOn :: "Env \<Rightarrow> Decimal list \<Rightarrow> bool" where
  "exactOn env xs = list_all (\<lambda>x. env_toNumber env x = x) xs"

definition exampleTransactions :: "Transaction list" where
  "exampleTransactions = [exampleTransaction ''t1'' 100, exampleTransaction ''t2'' (4001 / 100)]"

definition exampleDb :: Database where
  "exampleDb = exampleLedger exampleTransactions"

definition exampleCalculation :: SettlementCalculation where
  "exampleCalculation = calculateAmounts exampleDb ''m1'' sunday (endOfDay sunday)"

text \<open>A ledger whose only transaction has three decimal places: 5.005.\<close>

definition thousandthsDb :: Database where
  "thousandthsDb = exampleLedger [exampleTransaction ''t1'' (1001 / 200)]"



text \<open>A settlement and one transaction that is linked to it.\<close>

definition linkedDb :: Database where
  "linkedDb =
     emptyDb\<lparr> db_settlements := [newSettlement exampleEnv (exampleMerchant ''D+1'') sunday exampleCalculation],
              db_transactions :=
                [(exampleTransaction ''t1'' 100)\<lparr> tx_settlementId := Some ''s1'',
                                                   tx_settledAt := Some (sunday + 1) \<rparr>] \<rparr>"


text \<open>The calculation \<open>calculateSettlementForMerchant\<close> works on: that of the settlement period.\<close>

definition periodCalculation :: "Database \<Rightarrow> SubMerchant \<Rightarrow> Date \<Rightarrow> SettlementCalculation" where
  "periodCalculation db subMerchant settlementDate =
     calculateAmounts db (sm_id subMerchant)
       (fst (getSettlementPeriod subMerchant settlementDate))
       (snd (getSettlementPeriod subMerchant settlementDate))"

definition merchantWithMinimum :: "number option \<Rightarrow> SubMerchant" where
  "merchantWithMinimum minimum = (exampleMerchant ''D+1'')\<lparr> sm_minimumPayoutAmount := minimum \<rparr>"

text \<open>What \<open>rejectSettlement\<close> does to a transaction of the settlement.\<close>

definition unsettle :: "Transaction \<Rightarrow> Transaction" where
  "unsettle t = t\<lparr> tx_settlementId := None, tx_settledAt := None \<rparr>"

text \<open>The example ledger after its settlement \<open>s1\<close> has been calculated and approved.\<close>

definition settledDb :: Database where
  "settledDb = snd (calculateSettlementForMerchant exampleEnv (exampleMerchant ''D+1'') sunday exampleDb)"

definition rejectedDb :: Database where
  "rejectedDb = snd (rejectSettlement ''s1'' ''ops'' ''wrong period'' settledDb)"

text \<open>The notification \<open>confirmPayoutCompletion\<close> sends for a completed payout.\<close>

definition completedNotice :: "Payout \<Rightarrow> Notification" where
  "completedNotice p = PayoutNotification (po_subMerchantId p) (po_id p) ''completed''"

definition sentDb :: Database where
  "sentDb = payoutsDb [examplePayout ''p1'' INSTAPAY SENT]"

text \<open>
  A processing failure in \<open>processPayout\<close>: the dispatch throws, or returns a result that is not
  a success. One processing attempt is one call of \<open>processPayout\<close>.
\<close>

definition payfac_fails :: "Rails \<Rightarrow> Payout \<Rightarrow> bool" where
  "payfac_fails rails payout =
     (case payfac_dispatch rails payout of Inl e \<Rightarrow> True | Inr result \<Rightarrow> \<not> dr_success result)"

definition attempt :: "Env \<Rightarrow> Rails \<Rightarrow> ident \<Rightarrow> Database \<Rightarrow> Database" where
  "attempt env rails payoutId db = snd (processPayout env rails payoutId db)"

definition approvedDb :: Database where
  "approvedDb = payoutsDb [examplePayout ''p1'' INSTAPAY APPROVED]"

definition exhaustedPayout :: Payout where
  "exhaustedPayout = (examplePayout ''p1'' INSTAPAY FAILED)\<lparr> po_retryCount := 3 \<rparr>"

definition retryDb :: Database where
  "retryDb = payoutsDb [exhaustedPayout, examplePayout ''p2'' BANK_TRANSFER FAILED]"

text \<open>
  A processing failure in \<open>processSinglePayout\<close>: the dispatch throws, or returns a result
  that is not a success.
\<close>

definition dispatch_fails :: "Rails \<Rightarrow> Payout \<Rightarrow> bool" where
  "dispatch_fails rails payout =
     (case dispatch rails payout of Inl e \<Rightarrow> True | Inr result \<Rightarrow> \<not> pr_success result)"

definition payoutStates :: "Database \<Rightarrow> (PayoutStatus \<times> int \<times> int) list" where
  "payoutStates db = map (\<lambda>p. (po_status p, po_retryCount p, po_maxRetries p)) (db_payouts db)"

text \<open>
  A history of one payout in the service with the retry sweep: sent with success, reported
  failed by a webhook, refused in two retry sweeps, skipped by a third, and then reported
  completed by a late webhook.
\<close>

definition freshPayout :: Payout where
  "freshPayout = (examplePayout ''p1'' INSTAPAY PENDING)\<lparr> po_processorReference := None \<rparr>"

definition history1 :: Database where
  "history1 = snd (processSinglePayout exampleEnv acceptingRails freshPayout (payoutsDb [freshPayout]))"

definition history2 :: Database where
  "history2 =
     snd (handlePayoutWebhook exampleEnv ''instapay'' ''X1'' ''failed''
            (Some \<lparr> wd_reason = Some ''declined'', wd_payload = ''{}'' \<rparr>) history1)"

definition history3 :: Database where
  "history3 = retryFailedPayouts exampleEnv refusingRails (retryFailedPayouts exampleEnv refusingRails history2)"

definition history4 :: Database where
  "history4 = retryFailedPayouts exampleEnv refusingRails history3"

definition history5 :: Database where
  "history5 = snd (handlePayoutWebhook exampleEnv ''instapay'' ''X1'' ''completed'' None history4)"

definition batchMembers :: "Payout list" where
  "batchMembers = [examplePayout ''p1'' BANK_TRANSFER PENDING, examplePayout ''p2'' BANK_TRANSFER PENDING]"

definition memberStates :: "Database \<Rightarrow> (PayoutStatus \<times> int \<times> string option) list" where
  "memberStates db = map (\<lambda>p. (po_status p, po_retryCount p, po_failureMessage p)) (db_payouts db)"

section \<open>Properties of the settlement cycle\<close>

lemma getDay_examples:
  "getDay sunday = 0" "getDay (sunday + msPerDay) = 1" "getDay (sunday + 7 * msPerDay) = 0"
  by code_simp+

lemma getDate_examples:
  "getDate sunday = 7" "getDate (sunday + msPerDay) = 8" "getDate (sunday + 7 * msPerDay) = 14"
  "getDate (sunday + 25 * msPerDay) = 1"
  by code_simp+

text \<open>
  Claim C5, as the code has it. Whether a sub-merchant settles on a date depends on its cycle:
  the daily cycles \<open>D+0\<close> to \<open>D+3\<close> settle on every date; \<open>WEEKLY\<close> settles exactly when the
  weekday of the date is the configured settlement weekday (Sunday when none is configured);
  \<open>BIWEEKLY\<close> settles exactly when the weekday matches and \<open>floor(dayOfMonth / 7)\<close> is even,
  a count of seven-day buckets of the day of the month (1 to 6, 7 to 13, 14 to 20, ...) that
  is not a week of the month; \<open>MONTHLY\<close> settles exactly when the day of the month is the
  configured settlement day (the first when none, or zero, is configured).
\<close>

theorem shouldSettleToday_by_cycle:
  "(sm_settlementCycle sm \<in> {''D+0'', ''D+1'', ''D+2'', ''D+3''} \<longrightarrow> shouldSettleToday sm date)
   \<and> (sm_settlementCycle sm = ''WEEKLY'' \<longrightarrow>
        shouldSettleToday sm date
        = (getDay date = (case sm_settlementDayOfWeek sm of None \<Rightarrow> 0 | Some w \<Rightarrow> w)))
   \<and> (sm_settlementCycle sm = ''BIWEEKLY'' \<longrightarrow>
        shouldSettleToday sm date
        = (getDay date = (case sm_settlementDayOfWeek sm of None \<Rightarrow> 0 | Some w \<Rightarrow> w)
           \<and> even (getDate date div 7)))
   \<and> (sm_settlementCycle sm = ''MONTHLY'' \<longrightarrow>
        shouldSettleToday sm date
        = (getDate date
           = (case sm_settlementDayOfMonth sm of None \<Rightarrow> 1 | Some m \<Rightarrow> if m = 0 then 1 else m)))"
  by (simp add: shouldSettleToday_def orElse_def Let_def even_iff_mod_2_eq_zero split: option.splits)

text \<open>
  The four cycles on concrete dates: Sunday 2024-01-07, Monday 2024-01-08, Sunday 2024-01-14
  and Thursday 2024-02-01, for a sub-merchant configured for Sundays and for the first of the
  month.
\<close>

theorem shouldSettleToday_by_cycle_witness:
  "sm_settlementCycle (exampleMerchant ''D+1'') \<in> {''D+0'', ''D+1'', ''D+2'', ''D+3''}
   \<and> shouldSettleToday (exampleMerchant ''D+1'') (sunday + msPerDay)
   \<and> sm_settlementCycle (exampleMerchant ''WEEKLY'') = ''WEEKLY''
   \<and> shouldSettleToday (exampleMerchant ''WEEKLY'') sunday
   \<and> \<not> shouldSettleToday (exampleMerchant ''WEEKLY'') (sunday + msPerDay)
   \<and> sm_settlementCycle (exampleMerchant ''BIWEEKLY'') = ''BIWEEKLY''
   \<and> \<not> shouldSettleToday (exampleMerchant ''BIWEEKLY'') sunday
   \<and> shouldSettleToday (exampleMerchant ''BIWEEKLY'') (sunday + 7 * msPerDay)
   \<and> sm_settlementCycle (exampleMerchant ''MONTHLY'') = ''MONTHLY''
   \<and> shouldSettleToday (exampleMerchant ''MONTHLY'') (sunday + 25 * msPerDay)
   \<and> \<not> shouldSettleToday (exampleMerchant ''MONTHLY'') sunday"
  using shouldSettleToday_by_cycle [of "exampleMerchant ''D+1''" "sunday + msPerDay"]
    shouldSettleToday_by_cycle [of "exampleMerchant ''WEEKLY''" sunday]
    shouldSettleToday_by_cycle [of "exampleMerchant ''WEEKLY''" "sunday + msPerDay"]
    shouldSettleToday_by_cycle [of "exampleMerchant ''BIWEEKLY''" sunday]
    shouldSettleToday_by_cycle [of "exampleMerchant ''BIWEEKLY''" "sunday + 7 * msPerDay"]
    shouldSettleToday_by_cycle [of "exampleMerchant ''MONTHLY''" "sunday + 25 * msPerDay"]
    shouldSettleToday_by_cycle [of "exampleMerchant ''MONTHLY''" sunday]
  by (simp add: exampleMerchant_def getDay_examples getDate_examples)

text \<open>
  Claim C5 as stated fails for the biweekly cycle. A sub-merchant settling on Sundays settles
  on both Sunday 2024-01-28 and Sunday 2024-02-04, which lie in week 4 of January and week 1
  of February (by the ISO count and by the plain count), so no required parity of the week
  of the month, even or odd, gives the code's answer on both dates. And Saturday 2024-01-06
  and Sunday 2024-01-07 lie in the same ISO week, yet a Saturday sub-merchant settles on the
  first while a Sunday sub-merchant does not settle on the second.
\<close>

theorem shouldSettleToday_by_cycle_counterexample:
  "shouldSettleToday biweeklySunday (sunday + 21 * msPerDay)
   \<and> shouldSettleToday biweeklySunday (sunday + 28 * msPerDay)
   \<and> spec_isoWeekOfMonth (sunday + 21 * msPerDay) = 4
   \<and> spec_isoWeekOfMonth (sunday + 28 * msPerDay) = 1
   \<and> spec_plainWeekOfMonth (sunday + 21 * msPerDay) = 4
   \<and> spec_plainWeekOfMonth (sunday + 28 * msPerDay) = 1
   \<and> \<not> spec_biweeklyDue spec_isoWeekOfMonth 1 biweeklySunday (sunday + 21 * msPerDay)
   \<and> \<not> spec_biweeklyDue spec_isoWeekOfMonth 0 biweeklySunday (sunday + 28 * msPerDay)
   \<and> \<not> spec_biweeklyDue spec_plainWeekOfMonth 1 biweeklySunday (sunday + 21 * msPerDay)
   \<and> \<not> spec_biweeklyDue spec_plainWeekOfMonth 0 biweeklySunday (sunday + 28 * msPerDay)
   \<and> spec_isoWeekOfMonth (sunday - msPerDay) = spec_isoWeekOfMonth sunday
   \<and> shouldSettleToday biweeklySaturday (sunday - msPerDay)
   \<and> \<not> shouldSettleToday biweeklySunday sunday"
  by code_simp

section \<open>Properties of the settlement amounts\<close>

subsection \<open>Decimals with two places\<close>

lemma total_sum_list: "total f xs = sum_list (map f xs)"
proof -
  have "foldl (\<lambda>acc x. acc + f x) a xs = a + sum_list (map f xs)" for a
    by (induction xs arbitrary: a) (simp_all add: add.assoc)
  then show ?thesis by (simp add: total_def)
qed

lemma twoPlaces_iff: "twoPlaces x \<longleftrightarrow> (\<exists>k::int. x = of_int k / 100)"
proof
  assume "twoPlaces x"
  then have e: "of_int \<lfloor>x * 100\<rfloor> = x * 100" by (simp only: twoPlaces_def)
  have "x = of_int \<lfloor>x * 100\<rfloor> / 100" unfolding e by simp
  then show "\<exists>k::int. x = of_int k / 100" ..
next
  assume "\<exists>k::int. x = of_int k / 100"
  then obtain k :: int where "x = of_int k / 100" ..
  then have "x * 100 = of_int k" by simp
  then show "twoPlaces x" unfolding twoPlaces_def by (metis floor_of_int)
qed

lemma twoPlaces_0: "twoPlaces 0" by (simp add: twoPlaces_def)

lemma twoPlaces_add: "twoPlaces x \<Longrightarrow> twoPlaces y \<Longrightarrow> twoPlaces (x + y)"
proof -
  assume "twoPlaces x" "twoPlaces y"
  then obtain j k :: int where "x = of_int j / 100" "y = of_int k / 100"
    unfolding twoPlaces_iff by blast
  then have "x + y = of_int (j + k) / 100" by (simp add: add_divide_distrib)
  then show ?thesis unfolding twoPlaces_iff by blast
qed

lemma twoPlaces_minus: "twoPlaces x \<Longrightarrow> twoPlaces (- x)"
proof -
  assume "twoPlaces x"
  then obtain j :: int where "x = of_int j / 100"
    unfolding twoPlaces_iff by blast
  then have "- x = of_int (- j) / 100" by simp
  then show ?thesis unfolding twoPlaces_iff by blast
qed

lemma twoPlaces_diff: "twoPlaces x \<Longrightarrow> twoPlaces y \<Longrightarrow> twoPlaces (x - y)"
  using twoPlaces_add [of x "- y"] twoPlaces_minus [of y] by simp

lemma twoPlaces_toDecimalPlaces2: "twoPlaces (toDecimalPlaces2 x)"
  unfolding twoPlaces_iff toDecimalPlaces2_def
  by (metis of_int_minus minus_divide_left)





lemma twoPlaces_total: "list_all (\<lambda>x. twoPlaces (f x)) xs \<Longrightarrow> twoPlaces (total f xs)"
  unfolding total_sum_list
  by (induction xs) (simp_all add: twoPlaces_0 twoPlaces_add)

lemma list_all_filter: "list_all P xs \<Longrightarrow> list_all P (filter Q xs)"
  by (induction xs) simp_all

lemma calculateAmounts_twoPlaces:
  fixes db subMerchantId periodStart periodEnd
  defines "c \<equiv> calculateAmounts db subMerchantId periodStart periodEnd"
  assumes "ledgerTwoPlaces db"
  shows "twoPlaces (sc_grossSales c)" "twoPlaces (sc_grossRefunds c)" "twoPlaces (sc_grossDisputes c)"
    "twoPlaces (sc_grossAmount c)" "twoPlaces (sc_processorFees c)" "twoPlaces (sc_platformFees c)"
    "twoPlaces (sc_refundFees c)" "twoPlaces (sc_disputeFees c)" "twoPlaces (sc_totalFees c)"
    "twoPlaces (sc_reserveHeld c)" "twoPlaces (sc_reserveReleased c)" "twoPlaces (sc_netAmount c)"
proof -
  let ?txs = "unsettledTransactions db subMerchantId periodStart periodEnd"
  let ?rfs = "unsettledRefunds db subMerchantId periodStart periodEnd"
  let ?dps = "lostDisputes db subMerchantId periodStart periodEnd"
  let ?rss = "releasable db subMerchantId periodEnd"
  from assms(2) have
    t: "list_all (\<lambda>t. twoPlaces (tx_amount t) \<and> twoPlaces (orElse (tx_processorFee t) 0)
                      \<and> twoPlaces (orElse (tx_platformFee t) 0)) ?txs"
    and r: "list_all (\<lambda>r. twoPlaces (rf_amount r) \<and> twoPlaces (orElse (rf_refundFee r) 0)) ?rfs"
    and d: "list_all (\<lambda>d. twoPlaces (dp_amount d) \<and> twoPlaces (orElse (dp_disputeFee d) 0)) ?dps"
    and v: "list_all (\<lambda>r. twoPlaces (rs_amount r)) ?rss"
    unfolding ledgerTwoPlaces_def unsettledTransactions_def unsettledRefunds_def
      lostDisputes_def releasable_def
    by (simp_all add: list_all_filter)
  have gs: "twoPlaces (total tx_amount ?txs)"
    and pf: "twoPlaces (total (\<lambda>t. orElse (tx_processorFee t) 0) ?txs)"
    and lf: "twoPlaces (total (\<lambda>t. orElse (tx_platformFee t) 0) ?txs)"
    using t by (simp_all add: twoPlaces_total list_all_iff)
  have gr: "twoPlaces (total rf_amount ?rfs)"
    and rf: "twoPlaces (total (\<lambda>r. orElse (rf_refundFee r) 0) ?rfs)"
    using r by (simp_all add: twoPlaces_total list_all_iff)
  have gd: "twoPlaces (total dp_amount ?dps)"
    and df: "twoPlaces (total (\<lambda>d. orElse (dp_disputeFee d) 0) ?dps)"
    using d by (simp_all add: twoPlaces_total list_all_iff)
  have rr: "twoPlaces (total rs_amount ?rss)"
    using v by (simp add: twoPlaces_total)
  note parts = gs pf lf gr rf gd df rr
  show "twoPlaces (sc_grossSales c)" "twoPlaces (sc_grossRefunds c)" "twoPlaces (sc_grossDisputes c)"
    "twoPlaces (sc_processorFees c)" "twoPlaces (sc_platformFees c)"
    "twoPlaces (sc_refundFees c)" "twoPlaces (sc_disputeFees c)"
    "twoPlaces (sc_reserveHeld c)" "twoPlaces (sc_reserveReleased c)"
    unfolding c_def calculateAmounts_def Let_def
    by (simp_all add: parts twoPlaces_toDecimalPlaces2)
  show "twoPlaces (sc_grossAmount c)"
    unfolding c_def calculateAmounts_def Let_def
    by (simp add: parts twoPlaces_diff)
  show "twoPlaces (sc_totalFees c)"
    unfolding c_def calculateAmounts_def Let_def
    by (simp add: parts twoPlaces_add)
  show "twoPlaces (sc_netAmount c)"
    unfolding c_def calculateAmounts_def Let_def
    by (simp add: parts twoPlaces_add twoPlaces_diff twoPlaces_toDecimalPlaces2)
qed

subsection \<open>The conservation law\<close>

lemma createSettlement_fst:
  "fst (createSettlement env sm date c db) = newSettlement env sm date c"
  by (simp add: createSettlement_def Let_def)

lemma createSettlement_persisted:
  "fst (createSettlement env sm date c db) \<in> set (db_settlements (snd (createSettlement env sm date c db)))"
  by (simp add: createSettlement_def Let_def)

text \<open>
  Claim C1. For the amounts \<open>calculateAmounts\<close> computes and the settlement \<open>createSettlement\<close>
  persists from them: the gross amount is sales minus refunds minus disputes, the total fees
  are the sum of the processor, platform, refund and dispute fees, and the net amount is
  gross sales minus gross refunds minus gross disputes minus total fees minus the reserve held
  plus the reserve released, exactly. The persisted fields are the \<open>toNumber\<close> images of these
  decimals, so the same equation holds between the persisted fields whenever \<open>toNumber\<close> loses
  nothing on them; and the net amount has at most two decimal places whenever the ledger
  amounts have.
\<close>

theorem settlement_net_amount_conservation:
  "let c = calculateAmounts db subMerchantId periodStart periodEnd;
       s = fst (createSettlement env subMerchant settlementDate c db)
   in sc_grossAmount c = sc_grossSales c - sc_grossRefunds c - sc_grossDisputes c
      \<and> sc_totalFees c
          = sc_processorFees c + sc_platformFees c + sc_refundFees c + sc_disputeFees c
      \<and> sc_netAmount c
          = sc_grossSales c - sc_grossRefunds c - sc_grossDisputes c - sc_totalFees c
            - sc_reserveHeld c + sc_reserveReleased c
      \<and> s \<in> set (db_settlements (snd (createSettlement env subMerchant settlementDate c db)))
      \<and> st_netAmount s = env_toNumber env (sc_netAmount c)
      \<and> st_grossSales s = env_toNumber env (sc_grossSales c)
      \<and> st_grossRefunds s = env_toNumber env (sc_grossRefunds c)
      \<and> st_grossDisputes s = env_toNumber env (sc_grossDisputes c)
      \<and> st_totalFees s = env_toNumber env (sc_totalFees c)
      \<and> st_reserveHeld s = env_toNumber env (sc_reserveHeld c)
      \<and> st_reserveReleased s = env_toNumber env (sc_reserveReleased c)
      \<and> (exactOn env [sc_grossSales c, sc_grossRefunds c, sc_grossDisputes c, sc_totalFees c,
                       sc_reserveHeld c, sc_reserveReleased c, sc_netAmount c] \<longrightarrow>
           st_netAmount s
           = st_grossSales s - st_grossRefunds s - st_grossDisputes s - st_totalFees s
             - st_reserveHeld s + st_reserveReleased s)
      \<and> (ledgerTwoPlaces db \<longrightarrow> twoPlaces (sc_netAmount c))"
proof -
  define c where "c = calculateAmounts db subMerchantId periodStart periodEnd"
  define s where "s = fst (createSettlement env subMerchant settlementDate c db)"
  have ga: "sc_grossAmount c = sc_grossSales c - sc_grossRefunds c - sc_grossDisputes c"
    by (simp add: c_def calculateAmounts_def Let_def)
  have tf: "sc_totalFees c
            = sc_processorFees c + sc_platformFees c + sc_refundFees c + sc_disputeFees c"
    by (simp add: c_def calculateAmounts_def Let_def)
  have net: "sc_netAmount c
             = sc_grossSales c - sc_grossRefunds c - sc_grossDisputes c - sc_totalFees c
               - sc_reserveHeld c + sc_reserveReleased c"
    by (simp add: c_def calculateAmounts_def Let_def)
  have saved: "s \<in> set (db_settlements (snd (createSettlement env subMerchant settlementDate c db)))"
    unfolding s_def by (rule createSettlement_persisted)
  have fields:
    "st_netAmount s = env_toNumber env (sc_netAmount c)"
    "st_grossSales s = env_toNumber env (sc_grossSales c)"
    "st_grossRefunds s = env_toNumber env (sc_grossRefunds c)"
    "st_grossDisputes s = env_toNumber env (sc_grossDisputes c)"
    "st_totalFees s = env_toNumber env (sc_totalFees c)"
    "st_reserveHeld s = env_toNumber env (sc_reserveHeld c)"
    "st_reserveReleased s = env_toNumber env (sc_reserveReleased c)"
    by (simp_all add: s_def createSettlement_fst newSettlement_def)
  have exact: "st_netAmount s
           = st_grossSales s - st_grossRefunds s - st_grossDisputes s - st_totalFees s
             - st_reserveHeld s + st_reserveReleased s"
    if "exactOn env [sc_grossSales c, sc_grossRefunds c, sc_grossDisputes c, sc_totalFees c,
                       sc_reserveHeld c, sc_reserveReleased c, sc_netAmount c]"
    using that net by (simp add: exactOn_def fields)
  have places: "twoPlaces (sc_netAmount c)" if "ledgerTwoPlaces db"
    unfolding c_def using that by (rule calculateAmounts_twoPlaces)
  show ?thesis
    unfolding Let_def c_def [symmetric] s_def [symmetric]
    using ga tf net saved fields exact places by blast
qed

lemma exampleCalculation_amounts:
  "sc_grossSales exampleCalculation = 14001 / 100"
  "sc_grossRefunds exampleCalculation = 20"
  "sc_grossDisputes exampleCalculation = 30"
  "sc_totalFees exampleCalculation = 19"
  "sc_reserveHeld exampleCalculation = 7"
  "sc_reserveReleased exampleCalculation = 12"
  "sc_netAmount exampleCalculation = 7601 / 100"
  by code_simp+

lemma example_ledgerTwoPlaces: "ledgerTwoPlaces exampleDb"
  by code_simp

lemma exactOn_exampleEnv: "exactOn exampleEnv xs"
  by (simp add: exactOn_def exampleEnv_def list_all_iff)

text \<open>
  Two transactions of 100.00 and 40.01, a refund of 20, a lost dispute of 30, fees of 19, a
  reserve of 5 percent (7.0005, held as 7.00) and a released reserve of 12: the net is 76.01.
\<close>

theorem settlement_net_amount_conservation_witness:
  "exactOn exampleEnv
     [sc_grossSales exampleCalculation, sc_grossRefunds exampleCalculation,
      sc_grossDisputes exampleCalculation, sc_totalFees exampleCalculation,
      sc_reserveHeld exampleCalculation, sc_reserveReleased exampleCalculation,
      sc_netAmount exampleCalculation]
   \<and> ledgerTwoPlaces exampleDb
   \<and> st_netAmount (fst (createSettlement exampleEnv (exampleMerchant ''D+1'') sunday exampleCalculation
        exampleDb))
      = 14001 / 100 - 20 - 30 - 19 - 7 + 12
   \<and> twoPlaces (sc_netAmount exampleCalculation)"
  using settlement_net_amount_conservation
    [of exampleDb
        "''m1''" sunday "endOfDay sunday" exampleEnv "exampleMerchant ''D+1''" sunday]
    example_ledgerTwoPlaces exactOn_exampleEnv
  unfolding Let_def exampleCalculation_def [symmetric]
  by (simp add: exampleCalculation_amounts exampleEnv_def)

subsection \<open>Rounding\<close>





text \<open>
  The sums themselves go through no rounding step: on a ledger outside the amounts of the
  specification, with a transaction of 5.005, the gross sales are persisted as 5.005.
\<close>

lemma sums_outside_two_places:
  "\<not> ledgerTwoPlaces thousandthsDb
   \<and> st_grossSales (fst (createSettlement exampleEnv (exampleMerchant ''D+1'') sunday
        (calculateAmounts thousandthsDb ''m1'' sunday (endOfDay sunday)) thousandthsDb))
     = 1001 / 200
   \<and> toDecimalPlaces2 (1001 / 200) = 501 / 100"
  by code_simp

section \<open>Skipping a settlement\<close>

lemma calculateSettlementForMerchant_skip:
  assumes "(sc_transactionCount (periodCalculation db subMerchant settlementDate) = 0
            \<and> sc_refundCount (periodCalculation db subMerchant settlementDate) = 0
            \<and> sc_disputeCount (periodCalculation db subMerchant settlementDate) = 0
            \<and> sc_releasableReserves (periodCalculation db subMerchant settlementDate) = [])
           \<or> sc_netAmount (periodCalculation db subMerchant settlementDate)
              < orElse (sm_minimumPayoutAmount subMerchant) 100"
  shows "calculateSettlementForMerchant env subMerchant settlementDate db = (Inr None, db)"
  using assms
  unfolding calculateSettlementForMerchant_def periodCalculation_def
  by (auto simp: Let_def split_beta)

lemma calculation_counts:
  "sc_transactionCount (calculateAmounts db i s e) = length (unsettledTransactions db i s e)"
  "sc_refundCount (calculateAmounts db i s e) = length (unsettledRefunds db i s e)"
  "sc_disputeCount (calculateAmounts db i s e) = length (lostDisputes db i s e)"
  "sc_releasableReserves (calculateAmounts db i s e) = releasable db i e"
  by (simp_all add: calculateAmounts_def Let_def)

text \<open>
  Claim C7. \<open>calculateSettlementForMerchant\<close> returns null without an error and leaves the
  whole database as it was (no Settlement row, no settlement item, no ledger row claimed, no
  reserve touched, no notification) whenever the period has no unsettled captured
  transaction, no completed refund, no lost dispute and no releasable reserve, and whenever
  the computed net amount is below the minimum payout amount of the sub-merchant (or below the
  threshold in effect when none is configured).
\<close>

theorem no_settlement_without_activity_or_below_minimum:
  "(unsettledTransactions db (sm_id subMerchant) (fst (getSettlementPeriod subMerchant settlementDate))
        (snd (getSettlementPeriod subMerchant settlementDate)) = []
    \<and> unsettledRefunds db (sm_id subMerchant) (fst (getSettlementPeriod subMerchant settlementDate))
        (snd (getSettlementPeriod subMerchant settlementDate)) = []
    \<and> lostDisputes db (sm_id subMerchant) (fst (getSettlementPeriod subMerchant settlementDate))
        (snd (getSettlementPeriod subMerchant settlementDate)) = []
    \<and> releasable db (sm_id subMerchant) (snd (getSettlementPeriod subMerchant settlementDate)) = []
    \<longrightarrow> calculateSettlementForMerchant env subMerchant settlementDate db = (Inr None, db))
   \<and> (sm_minimumPayoutAmount subMerchant = Some minimum
       \<and> sc_netAmount (periodCalculation db subMerchant settlementDate) < minimum
    \<longrightarrow> calculateSettlementForMerchant env subMerchant settlementDate db = (Inr None, db))
   \<and> (sc_netAmount (periodCalculation db subMerchant settlementDate)
       < orElse (sm_minimumPayoutAmount subMerchant) 100
    \<longrightarrow> calculateSettlementForMerchant env subMerchant settlementDate db = (Inr None, db))"
proof (intro conjI impI)
  assume "unsettledTransactions db (sm_id subMerchant) (fst (getSettlementPeriod subMerchant settlementDate))
        (snd (getSettlementPeriod subMerchant settlementDate)) = []
    \<and> unsettledRefunds db (sm_id subMerchant) (fst (getSettlementPeriod subMerchant settlementDate))
        (snd (getSettlementPeriod subMerchant settlementDate)) = []
    \<and> lostDisputes db (sm_id subMerchant) (fst (getSettlementPeriod subMerchant settlementDate))
        (snd (getSettlementPeriod subMerchant settlementDate)) = []
    \<and> releasable db (sm_id subMerchant) (snd (getSettlementPeriod subMerchant settlementDate)) = []"
  then show "calculateSettlementForMerchant env subMerchant settlementDate db = (Inr None, db)"
    by (intro calculateSettlementForMerchant_skip disjI1)
       (simp add: periodCalculation_def calculation_counts)
next
  assume a: "sm_minimumPayoutAmount subMerchant = Some minimum
       \<and> sc_netAmount (periodCalculation db subMerchant settlementDate) < minimum"
  then have "sc_netAmount (periodCalculation db subMerchant settlementDate)
              < orElse (sm_minimumPayoutAmount subMerchant) 100"
    by (auto simp: orElse_def)
  then show "calculateSettlementForMerchant env subMerchant settlementDate db = (Inr None, db)"
    by (intro calculateSettlementForMerchant_skip disjI2)
next
  assume "sc_netAmount (periodCalculation db subMerchant settlementDate)
       < orElse (sm_minimumPayoutAmount subMerchant) 100"
  then show "calculateSettlementForMerchant env subMerchant settlementDate db = (Inr None, db)"
    by (intro calculateSettlementForMerchant_skip disjI2)
qed

lemma example_period: "periodCalculation exampleDb (merchantWithMinimum minimum) sunday = exampleCalculation"
proof -
  have "getSettlementPeriod (merchantWithMinimum minimum) sunday = (sunday, endOfDay sunday)"
    by (simp add: getSettlementPeriod_def merchantWithMinimum_def exampleMerchant_def
        getSettlementCycleDays_def addDays_def Let_def) code_simp
  then show ?thesis
    by (simp add: periodCalculation_def exampleCalculation_def merchantWithMinimum_def exampleMerchant_def)
qed

lemma example_settles:
  "map_sum id (map_option st_netAmount)
     (fst (calculateSettlementForMerchant exampleEnv (merchantWithMinimum (Some 50)) sunday exampleDb))
   = Inr (Some (7601 / 100))"
  by code_simp

text \<open>
  An empty ledger gives no settlement; the example ledger nets 76.01, which is below a
  configured minimum of 80.
\<close>

theorem no_settlement_without_activity_or_below_minimum_witness:
  "unsettledTransactions emptyDb ''m1'' (fst (getSettlementPeriod (merchantWithMinimum (Some 80)) sunday))
        (snd (getSettlementPeriod (merchantWithMinimum (Some 80)) sunday)) = []
   \<and> calculateSettlementForMerchant exampleEnv (merchantWithMinimum (Some 80)) sunday emptyDb
     = (Inr None, emptyDb)
   \<and> sm_minimumPayoutAmount (merchantWithMinimum (Some 80)) = Some 80
   \<and> sc_netAmount (periodCalculation exampleDb (merchantWithMinimum (Some 80)) sunday) = 7601 / 100
   \<and> calculateSettlementForMerchant exampleEnv (merchantWithMinimum (Some 80)) sunday exampleDb
     = (Inr None, exampleDb)
   \<and> orElse (sm_minimumPayoutAmount (merchantWithMinimum None)) 100 = 100
   \<and> calculateSettlementForMerchant exampleEnv (merchantWithMinimum None) sunday exampleDb
     = (Inr None, exampleDb)"
proof -
  let ?m = "merchantWithMinimum (Some 80)"
  have quiet: "unsettledTransactions emptyDb (sm_id ?m) (fst (getSettlementPeriod ?m sunday))
        (snd (getSettlementPeriod ?m sunday)) = []
    \<and> unsettledRefunds emptyDb (sm_id ?m) (fst (getSettlementPeriod ?m sunday))
        (snd (getSettlementPeriod ?m sunday)) = []
    \<and> lostDisputes emptyDb (sm_id ?m) (fst (getSettlementPeriod ?m sunday))
        (snd (getSettlementPeriod ?m sunday)) = []
    \<and> releasable emptyDb (sm_id ?m) (snd (getSettlementPeriod ?m sunday)) = []"
    by (simp add: unsettledTransactions_def unsettledRefunds_def lostDisputes_def releasable_def emptyDb_def)
  have idm: "sm_id ?m = ''m1''" "sm_minimumPayoutAmount ?m = Some 80"
    by (simp_all add: merchantWithMinimum_def exampleMerchant_def)
  have net: "sc_netAmount (periodCalculation exampleDb ?m sunday) = 7601 / 100"
    by (simp add: example_period exampleCalculation_amounts)
  have a: "calculateSettlementForMerchant exampleEnv ?m sunday emptyDb = (Inr None, emptyDb)"
    using no_settlement_without_activity_or_below_minimum
      [where db = emptyDb and subMerchant = ?m and settlementDate = sunday and env = exampleEnv,
       THEN conjunct1] quiet
    by blast
  have b: "calculateSettlementForMerchant exampleEnv ?m sunday exampleDb = (Inr None, exampleDb)"
    using no_settlement_without_activity_or_below_minimum
      [where db = exampleDb and subMerchant = ?m and settlementDate = sunday and env = exampleEnv
         and minimum = 80, THEN conjunct2, THEN conjunct1] idm(2) net
    by simp
  have unset: "orElse (sm_minimumPayoutAmount (merchantWithMinimum None)) 100 = 100"
    by (simp add: merchantWithMinimum_def exampleMerchant_def orElse_def)
  have c: "calculateSettlementForMerchant exampleEnv (merchantWithMinimum None) sunday exampleDb
     = (Inr None, exampleDb)"
    using no_settlement_without_activity_or_below_minimum
      [where db = exampleDb and subMerchant = "merchantWithMinimum None" and settlementDate = sunday
         and env = exampleEnv, THEN conjunct2, THEN conjunct2] unset
    by (simp add: example_period exampleCalculation_amounts)
  show ?thesis using quiet idm net a b unset c by simp
qed

text \<open>
  Claim C9. When the minimum payout amount of the sub-merchant is unset or zero, the threshold
  in effect is 100: a net amount below 100 makes \<open>calculateSettlementForMerchant\<close> return null
  and leave the database as it was, so a configured minimum of zero does not switch the
  threshold off.
\<close>

theorem default_minimum_payout:
  assumes "sm_minimumPayoutAmount subMerchant = None \<or> sm_minimumPayoutAmount subMerchant = Some 0"
    and "sc_netAmount (periodCalculation db subMerchant settlementDate) < 100"
  shows "orElse (sm_minimumPayoutAmount subMerchant) 100 = 100
         \<and> calculateSettlementForMerchant env subMerchant settlementDate db = (Inr None, db)"
proof -
  from assms(1) have t: "orElse (sm_minimumPayoutAmount subMerchant) 100 = 100"
    by (auto simp: orElse_def)
  with assms(2) have "calculateSettlementForMerchant env subMerchant settlementDate db = (Inr None, db)"
    by (intro calculateSettlementForMerchant_skip disjI2) simp
  with t show ?thesis by simp
qed

text \<open>
  The example ledger nets 76.01: no settlement with the minimum unset or zero, a settlement
  with a minimum of 50.
\<close>

theorem default_minimum_payout_witness:
  "sc_netAmount (periodCalculation exampleDb (merchantWithMinimum None) sunday) = 7601 / 100
   \<and> calculateSettlementForMerchant exampleEnv (merchantWithMinimum None) sunday exampleDb
     = (Inr None, exampleDb)
   \<and> sc_netAmount (periodCalculation exampleDb (merchantWithMinimum (Some 0)) sunday) = 7601 / 100
   \<and> calculateSettlementForMerchant exampleEnv (merchantWithMinimum (Some 0)) sunday exampleDb
     = (Inr None, exampleDb)
   \<and> map_sum id (map_option st_netAmount)
        (fst (calculateSettlementForMerchant exampleEnv (merchantWithMinimum (Some 50)) sunday exampleDb))
     = Inr (Some (7601 / 100))"
proof -
  have net: "sc_netAmount (periodCalculation exampleDb (merchantWithMinimum minimum) sunday) = 7601 / 100"
    for minimum
    by (simp add: example_period exampleCalculation_amounts)
  have m: "sm_minimumPayoutAmount (merchantWithMinimum minimum) = minimum" for minimum
    by (simp add: merchantWithMinimum_def exampleMerchant_def)
  have a: "calculateSettlementForMerchant exampleEnv (merchantWithMinimum None) sunday exampleDb
     = (Inr None, exampleDb)"
    using default_minimum_payout [where subMerchant = "merchantWithMinimum None" and db = exampleDb
        and settlementDate = sunday and env = exampleEnv]
    by (simp add: net m)
  have b: "calculateSettlementForMerchant exampleEnv (merchantWithMinimum (Some 0)) sunday exampleDb
     = (Inr None, exampleDb)"
    using default_minimum_payout [where subMerchant = "merchantWithMinimum (Some 0)" and db = exampleDb
        and settlementDate = sunday and env = exampleEnv]
    by (simp add: net m)
  show ?thesis using net a b example_settles by simp
qed

section \<open>Rejecting a settlement\<close>

lemma find_save_same:
  assumes "find P rows = Some p" and "P e" and "key e = key p"
  shows "find P (save key e rows) = Some e"
proof -
  have present: "key e \<in> set (map key rows)"
    using assms(1,3) by (auto simp: find_Some_iff)
  have "find P (map (\<lambda>r. if key r = key p then e else r) rows) = Some e"
    using assms(1,2) by (induction rows) (auto split: if_splits)
  with present show ?thesis by (simp add: save_def assms(3))
qed

lemma filter_save_others:
  assumes "key e \<in> set (map key rows)"
  shows "filter (\<lambda>r. key r \<noteq> key e) (save key e rows) = filter (\<lambda>r. key r \<noteq> key e) rows"
proof -
  have "filter (\<lambda>r. key r \<noteq> key e) (map (\<lambda>r. if key r = key e then e else r) rows)
        = filter (\<lambda>r. key r \<noteq> key e) rows"
    by (induction rows) auto
  with assms show ?thesis by (simp add: save_def)
qed

text \<open>
  Claim C8, as the code has it. For a settlement that exists, \<open>rejectSettlement\<close> returns it
  with status \<open>on_hold\<close> and the reason as its adjustment notes, stores it so, clears the
  settlement id and also the \<open>settledAt\<close> timestamp of every transaction linked to the
  settlement, clears the settlement id of every linked refund, and changes nothing else: the
  other settlements, the disputes (their settlement ids included), the reserves, the
  settlement items, the payouts, the batches and the notifications are as before.
\<close>

theorem rejectSettlement_effect:
  assumes "findOne (\<lambda>s. st_id s = settlementId) (db_settlements db) = Some settlement"
  shows "let rejected = settlement\<lparr> st_status := ON_HOLD, st_adjustmentNotes := Some reason \<rparr>;
             db' = snd (rejectSettlement settlementId rejectedBy reason db)
         in fst (rejectSettlement settlementId rejectedBy reason db) = Inr rejected
            \<and> db_transactions db'
              = map (\<lambda>t. if tx_settlementId t = Some settlementId then unsettle t else t)
                  (db_transactions db)
            \<and> db_refunds db'
              = map (\<lambda>r. if rf_settlementId r = Some settlementId then r\<lparr> rf_settlementId := None \<rparr> else r)
                  (db_refunds db)
            \<and> Some settlementId \<notin> set (map tx_settlementId (db_transactions db'))
            \<and> Some settlementId \<notin> set (map rf_settlementId (db_refunds db'))
            \<and> findOne (\<lambda>s. st_id s = settlementId) (db_settlements db') = Some rejected
            \<and> filter (\<lambda>s. st_id s \<noteq> settlementId) (db_settlements db')
              = filter (\<lambda>s. st_id s \<noteq> settlementId) (db_settlements db)
            \<and> db_disputes db' = db_disputes db
            \<and> db_reserves db' = db_reserves db
            \<and> db_settlementItems db' = db_settlementItems db
            \<and> db_payouts db' = db_payouts db
            \<and> db_payoutBatches db' = db_payoutBatches db
            \<and> db_subMerchants db' = db_subMerchants db
            \<and> db_notifications db' = db_notifications db"
proof -
  define rejected where "rejected = settlement\<lparr> st_status := ON_HOLD, st_adjustmentNotes := Some reason \<rparr>"
  have f: "find (\<lambda>s. st_id s = settlementId) (db_settlements db) = Some settlement"
    using assms by (simp add: findOne_def)
  then have sid: "st_id settlement = settlementId"
    by (auto simp: find_Some_iff)
  then have rid: "st_id rejected = settlementId"
    by (simp add: rejected_def)
  have stored: "find (\<lambda>s. st_id s = settlementId) (save st_id rejected (db_settlements db)) = Some rejected"
    by (rule find_save_same [where p = settlement]) (use f sid rid in simp_all)
  have present: "st_id rejected \<in> set (map st_id (db_settlements db))"
    using f sid rid by (auto simp: find_Some_iff)
  then have others: "filter (\<lambda>s. st_id s \<noteq> settlementId) (save st_id rejected (db_settlements db))
      = filter (\<lambda>s. st_id s \<noteq> settlementId) (db_settlements db)"
    using filter_save_others [of st_id rejected "db_settlements db"] by (simp add: rid)
  have tx: "Some settlementId \<notin> set (map tx_settlementId
        (map (\<lambda>t. if tx_settlementId t = Some settlementId then unsettle t else t) rows))" for rows
    by (induction rows) (auto simp: unsettle_def)
  have rf: "Some settlementId \<notin> set (map rf_settlementId
        (map (\<lambda>r. if rf_settlementId r = Some settlementId then r\<lparr> rf_settlementId := None \<rparr> else r) rows))"
    for rows
    by (induction rows) auto
  define db' where "db' = snd (rejectSettlement settlementId rejectedBy reason db)"
  have result: "fst (rejectSettlement settlementId rejectedBy reason db) = Inr rejected"
    using assms by (simp add: rejectSettlement_def Let_def rejected_def)
  have txs: "db_transactions db'
      = map (\<lambda>t. if tx_settlementId t = Some settlementId then unsettle t else t) (db_transactions db)"
    using assms by (simp add: db'_def rejectSettlement_def Let_def updateWhere_def unsettle_def)
  have rfs: "db_refunds db'
      = map (\<lambda>r. if rf_settlementId r = Some settlementId then r\<lparr> rf_settlementId := None \<rparr> else r)
          (db_refunds db)"
    using assms by (simp add: db'_def rejectSettlement_def Let_def updateWhere_def)
  have sts: "db_settlements db' = save st_id rejected (db_settlements db)"
    using assms by (simp add: db'_def rejectSettlement_def Let_def rejected_def)
  have frame: "db_disputes db' = db_disputes db" "db_reserves db' = db_reserves db"
    "db_settlementItems db' = db_settlementItems db" "db_payouts db' = db_payouts db"
    "db_payoutBatches db' = db_payoutBatches db" "db_subMerchants db' = db_subMerchants db"
    "db_notifications db' = db_notifications db"
    using assms by (simp_all add: db'_def rejectSettlement_def Let_def)
  have "Some settlementId \<notin> set (map tx_settlementId (db_transactions db'))"
    unfolding txs by (rule tx)
  moreover have "Some settlementId \<notin> set (map rf_settlementId (db_refunds db'))"
    unfolding rfs by (rule rf)
  moreover have "findOne (\<lambda>s. st_id s = settlementId) (db_settlements db') = Some rejected"
    unfolding sts findOne_def by (rule stored)
  moreover have "filter (\<lambda>s. st_id s \<noteq> settlementId) (db_settlements db')
      = filter (\<lambda>s. st_id s \<noteq> settlementId) (db_settlements db)"
    unfolding sts by (rule others)
  ultimately show ?thesis
    unfolding Let_def rejected_def [symmetric] db'_def [symmetric]
    using result txs rfs frame by blast
qed

lemma settledDb_facts:
  "map_option st_status (findOne (\<lambda>s. st_id s = ''s1'') (db_settlements settledDb)) = Some ST_APPROVED"
  "map dp_settlementId (db_disputes settledDb) = [Some ''s1'']"
  "map rs_status (db_reserves settledDb) = [''released'', ''held'']"
  "map tx_settlementId (db_transactions settledDb) = [Some ''s1'', Some ''s1'']"
  "map tx_settledAt (db_transactions settledDb) = [Some 1704758400000, Some 1704758400000]"
  "map rf_settlementId (db_refunds settledDb) = [Some ''s1'']"
  by code_simp+

text \<open>
  Claim C8 as stated fails on the frame: the rejection also clears \<open>settledAt\<close> on the
  transactions of the settlement.
\<close>

theorem rejectSettlement_effect_counterexample:
  "map st_id (db_settlements linkedDb) = [''s1'']
   \<and> map (\<lambda>t. (tx_settlementId t, tx_settledAt t)) (db_transactions linkedDb)
     = [(Some ''s1'', Some (sunday + 1))]
   \<and> map (\<lambda>t. (tx_settlementId t, tx_settledAt t))
        (db_transactions (snd (rejectSettlement ''s1'' ''ops'' ''wrong period'' linkedDb)))
     = [(None, None)]"
  by code_simp

text \<open>
  Rejecting the approved settlement \<open>s1\<close> of the example: the dispute keeps its settlement id,
  the released and the newly held reserve keep their status, the payout stays.
\<close>

theorem rejectSettlement_effect_witness:
  "map_option st_status (findOne (\<lambda>s. st_id s = ''s1'') (db_settlements settledDb)) = Some ST_APPROVED
   \<and> map tx_settlementId (db_transactions settledDb) = [Some ''s1'', Some ''s1'']
   \<and> map rf_settlementId (db_refunds settledDb) = [Some ''s1'']
   \<and> Some ''s1'' \<notin> set (map tx_settlementId (db_transactions rejectedDb))
   \<and> Some ''s1'' \<notin> set (map rf_settlementId (db_refunds rejectedDb))
   \<and> map_option (\<lambda>s. (st_status s, st_adjustmentNotes s))
        (findOne (\<lambda>s. st_id s = ''s1'') (db_settlements rejectedDb))
     = Some (ON_HOLD, Some ''wrong period'')
   \<and> map dp_settlementId (db_disputes rejectedDb) = [Some ''s1'']
   \<and> map rs_status (db_reserves rejectedDb) = [''released'', ''held'']
   \<and> db_payouts rejectedDb = db_payouts settledDb"
proof -
  from settledDb_facts(1) obtain s where
    s: "findOne (\<lambda>s. st_id s = ''s1'') (db_settlements settledDb) = Some s"
    by blast
  note t = rejectSettlement_effect [OF s, of "''wrong period''" "''ops''", unfolded Let_def,
      folded rejectedDb_def]
  from t have a: "Some ''s1'' \<notin> set (map tx_settlementId (db_transactions rejectedDb))"
    "Some ''s1'' \<notin> set (map rf_settlementId (db_refunds rejectedDb))"
    "findOne (\<lambda>s. st_id s = ''s1'') (db_settlements rejectedDb)
       = Some (s\<lparr> st_status := ON_HOLD, st_adjustmentNotes := Some ''wrong period'' \<rparr>)"
    "db_disputes rejectedDb = db_disputes settledDb"
    "db_reserves rejectedDb = db_reserves settledDb"
    "db_payouts rejectedDb = db_payouts settledDb"
    by blast+
  show ?thesis
    using a settledDb_facts by simp
qed

section \<open>Confirmations\<close>

lemma find_None_no_match: "\<forall>x \<in> set xs. \<not> P x \<Longrightarrow> find P xs = None"
  by (simp add: find_None_iff)

text \<open>
  Claim C10. When no payout carries the processor reference, \<open>confirmPayoutCompletion\<close> and
  \<open>handlePayoutWebhook\<close> return without an error, whatever the status, and leave every table
  and the notification log as they were.
\<close>

theorem confirmation_for_unknown_reference:
  assumes "\<forall>p \<in> set (db_payouts db). po_processorReference p \<noteq> Some reference"
  shows "confirmPayoutCompletion env reference status details db = db
         \<and> handlePayoutWebhook env provider reference status data db = (Inr (), db)"
proof -
  have "findOne (\<lambda>p. po_processorReference p = Some reference) (db_payouts db) = None"
    unfolding findOne_def using assms by (rule find_None_no_match)
  then show ?thesis
    by (simp add: confirmPayoutCompletion_def handlePayoutWebhook_def)
qed

theorem confirmation_for_unknown_reference_witness:
  "map po_processorReference (db_payouts (payoutsDb [examplePayout ''p1'' INSTAPAY SENT]))
     = [Some ''ref-p1'']
   \<and> confirmPayoutCompletion exampleEnv ''ref-p2'' ''completed'' None
        (payoutsDb [examplePayout ''p1'' INSTAPAY SENT])
      = payoutsDb [examplePayout ''p1'' INSTAPAY SENT]
   \<and> handlePayoutWebhook exampleEnv ''instapay'' ''ref-p2'' ''failed'' None
        (payoutsDb [examplePayout ''p1'' INSTAPAY SENT])
      = (Inr (), payoutsDb [examplePayout ''p1'' INSTAPAY SENT])"
proof -
  have h: "\<forall>p \<in> set (db_payouts (payoutsDb [examplePayout ''p1'' INSTAPAY SENT])).
      po_processorReference p \<noteq> Some ''ref-p2''"
    by (simp add: payoutsDb_def examplePayout_def)
  have "map po_processorReference (db_payouts (payoutsDb [examplePayout ''p1'' INSTAPAY SENT]))
     = [Some ''ref-p1'']"
    by (simp add: payoutsDb_def examplePayout_def)
  with confirmation_for_unknown_reference [OF h] show ?thesis by blast
qed

lemma confirm_completed_once:
  fixes env details
  assumes "findOne (\<lambda>q. po_processorReference q = Some reference) (db_payouts db) = Some p"
  defines "p' \<equiv> p\<lparr> po_status := COMPLETED, po_completedAt := Some (env_now env),
                     po_processorStatus := Some ''completed'', po_processorResponse := details \<rparr>"
  shows "findOne (\<lambda>q. po_processorReference q = Some reference)
           (db_payouts (confirmPayoutCompletion env reference ''completed'' details db)) = Some p'"
    and "db_notifications (confirmPayoutCompletion env reference ''completed'' details db)
         = db_notifications db @ [completedNotice p]"
proof -
  have ref: "po_processorReference p = Some reference"
    using assms(1) by (auto simp: findOne_def find_Some_iff)
  have "find (\<lambda>q. po_processorReference q = Some reference) (save po_id p' (db_payouts db)) = Some p'"
    by (rule find_save_same [where p = p]) (use assms(1) ref in \<open>simp_all add: findOne_def p'_def\<close>)
  then show "findOne (\<lambda>q. po_processorReference q = Some reference)
           (db_payouts (confirmPayoutCompletion env reference ''completed'' details db)) = Some p'"
    using assms(1) by (simp add: confirmPayoutCompletion_def findOne_def p'_def Let_def)
  show "db_notifications (confirmPayoutCompletion env reference ''completed'' details db)
         = db_notifications db @ [completedNotice p]"
    using assms(1) by (simp add: confirmPayoutCompletion_def completedNotice_def Let_def)
qed

text \<open>
  Claim C2, as the code has it. Confirming the same processor reference as completed twice
  leaves the payout completed, but the second call is not a no-op: it sets the completion time
  and the processor response again and sends the success notification a second time.
\<close>

theorem confirmPayoutCompletion_twice:
  assumes "findOne (\<lambda>q. po_processorReference q = Some reference) (db_payouts db) = Some p"
  shows "let once = confirmPayoutCompletion env reference ''completed'' details db;
             twice = confirmPayoutCompletion env' reference ''completed'' details once
         in map_option po_status
              (findOne (\<lambda>q. po_processorReference q = Some reference) (db_payouts twice))
            = Some COMPLETED
            \<and> map_option po_completedAt
                (findOne (\<lambda>q. po_processorReference q = Some reference) (db_payouts twice))
              = Some (Some (env_now env'))
            \<and> map_option po_processorResponse
                (findOne (\<lambda>q. po_processorReference q = Some reference) (db_payouts twice))
              = Some details
            \<and> db_notifications once = db_notifications db @ [completedNotice p]
            \<and> db_notifications twice
              = db_notifications db @ [completedNotice p, completedNotice p]
            \<and> twice \<noteq> once"
proof -
  define once where "once = confirmPayoutCompletion env reference ''completed'' details db"
  define twice where "twice = confirmPayoutCompletion env' reference ''completed'' details once"
  define p1 where "p1 = p\<lparr> po_status := COMPLETED, po_completedAt := Some (env_now env),
                     po_processorStatus := Some ''completed'', po_processorResponse := details \<rparr>"
  have f1: "findOne (\<lambda>q. po_processorReference q = Some reference) (db_payouts once) = Some p1"
    and n1: "db_notifications once = db_notifications db @ [completedNotice p]"
    unfolding once_def p1_def using assms by (rule confirm_completed_once)+
  have f2: "findOne (\<lambda>q. po_processorReference q = Some reference) (db_payouts twice)
            = Some (p1\<lparr> po_status := COMPLETED, po_completedAt := Some (env_now env'),
                     po_processorStatus := Some ''completed'', po_processorResponse := details \<rparr>)"
    and n2: "db_notifications twice = db_notifications once @ [completedNotice p1]"
    unfolding twice_def using f1 by (rule confirm_completed_once)+
  have same: "completedNotice p1 = completedNotice p"
    by (simp add: completedNotice_def p1_def)
  have "db_notifications twice \<noteq> db_notifications once"
    using n2 by simp
  then have "twice \<noteq> once" by auto
  then show ?thesis
    unfolding Let_def once_def [symmetric] twice_def [symmetric]
    using f2 n1 n2 same by simp
qed

text \<open>
  Claim C2 as stated fails: after the second confirmation the sub-merchant has been notified
  twice.
\<close>

theorem confirmPayoutCompletion_twice_counterexample:
  "db_notifications (confirmPayoutCompletion exampleEnv ''ref-p1'' ''completed'' None sentDb)
     = [PayoutNotification ''m1'' ''p1'' ''completed'']
   \<and> db_notifications
         (confirmPayoutCompletion exampleEnv ''ref-p1'' ''completed'' None
            (confirmPayoutCompletion exampleEnv ''ref-p1'' ''completed'' None sentDb))
     = [PayoutNotification ''m1'' ''p1'' ''completed'', PayoutNotification ''m1'' ''p1'' ''completed'']"
  by code_simp

theorem confirmPayoutCompletion_twice_witness:
  "findOne (\<lambda>q. po_processorReference q = Some ''ref-p1'') (db_payouts sentDb)
     = Some (examplePayout ''p1'' INSTAPAY SENT)
   \<and> map_option po_status
        (findOne (\<lambda>q. po_processorReference q = Some ''ref-p1'')
           (db_payouts (confirmPayoutCompletion exampleEnv ''ref-p1'' ''completed'' None
              (confirmPayoutCompletion exampleEnv ''ref-p1'' ''completed'' None sentDb))))
     = Some COMPLETED
   \<and> db_notifications
         (confirmPayoutCompletion exampleEnv ''ref-p1'' ''completed'' None
            (confirmPayoutCompletion exampleEnv ''ref-p1'' ''completed'' None sentDb))
     = [PayoutNotification ''m1'' ''p1'' ''completed'', PayoutNotification ''m1'' ''p1'' ''completed'']"
proof -
  have found: "findOne (\<lambda>q. po_processorReference q = Some ''ref-p1'') (db_payouts sentDb)
     = Some (examplePayout ''p1'' INSTAPAY SENT)"
    by (simp add: sentDb_def payoutsDb_def findOne_def examplePayout_def)
  have none: "db_notifications sentDb = []"
    by (simp add: sentDb_def payoutsDb_def emptyDb_def)
  have notice: "completedNotice (examplePayout ''p1'' INSTAPAY SENT) = PayoutNotification ''m1'' ''p1'' ''completed''"
    by (simp add: completedNotice_def examplePayout_def)
  from confirmPayoutCompletion_twice [OF found, of exampleEnv None exampleEnv] found none notice
  show ?thesis by (simp add: Let_def)
qed

section \<open>Retries\<close>

lemma processPayout_failed_lookup:
  assumes "find (\<lambda>q. po_id q = pid) rows = Some p0" and "po_id payout = pid"
  shows "\<exists>p'. findOne (\<lambda>q. po_id q = pid)
                 (db_payouts (snd (processPayout_failed payout message (db\<lparr> db_payouts := rows \<rparr>)))) = Some p'
              \<and> po_id p' = pid
              \<and> po_retryCount p' = po_retryCount payout + 1
              \<and> po_maxRetries p' = po_maxRetries payout
              \<and> po_status p' = (if po_maxRetries payout \<le> po_retryCount payout + 1 then FAILED else APPROVED)"
proof -
  have id0: "po_id p0 = pid" using assms(1) by (auto simp: find_Some_iff)
  have s: "find (\<lambda>q. po_id q = pid) (save po_id e rows) = Some e" if "po_id e = pid" for e
    by (rule find_save_same [where p = p0]) (use assms(1) that id0 in simp_all)
  show ?thesis
    using assms(2)
    by (auto simp: processPayout_failed_def Let_def findOne_def s split: if_splits)
qed

lemma attempt_failure:
  assumes found: "findOne (\<lambda>q. po_id q = pid) (db_payouts db) = Some p"
    and approved: "po_status p = APPROVED"
    and fails: "\<forall>q. po_id q = pid \<longrightarrow> payfac_fails rails q"
  shows "\<exists>p'. findOne (\<lambda>q. po_id q = pid) (db_payouts (attempt env rails pid db)) = Some p'
              \<and> po_retryCount p' = po_retryCount p + 1
              \<and> po_maxRetries p' = po_maxRetries p
              \<and> po_status p' = (if po_maxRetries p \<le> po_retryCount p + 1 then FAILED else APPROVED)"
proof -
  define payout where "payout = p\<lparr> po_status := PROCESSING, po_initiatedAt := Some (env_now env) \<rparr>"
  define db1 where "db1 = db\<lparr> db_payouts := save po_id payout (db_payouts db) \<rparr>"
  have idp: "po_id p = pid" using found by (auto simp: findOne_def find_Some_iff)
  then have idq: "po_id payout = pid" by (simp add: payout_def)
  have f1: "find (\<lambda>q. po_id q = pid) (save po_id payout (db_payouts db)) = Some payout"
    by (rule find_save_same [where p = p]) (use found idp idq in \<open>simp_all add: findOne_def\<close>)
  have step: "\<exists>p'. findOne (\<lambda>q. po_id q = pid)
                 (db_payouts (snd (processPayout_failed payout message db1))) = Some p'
              \<and> po_id p' = pid
              \<and> po_retryCount p' = po_retryCount payout + 1
              \<and> po_maxRetries p' = po_maxRetries payout
              \<and> po_status p' = (if po_maxRetries payout \<le> po_retryCount payout + 1 then FAILED else APPROVED)"
    for message
    unfolding db1_def using f1 idq by (rule processPayout_failed_lookup)
  have fl: "payfac_fails rails payout" using fails idq by blast
  have "attempt env rails pid db = snd (processPayout_failed payout (errorMessage e) db1)"
    if "payfac_dispatch rails payout = Inl e" for e
    using that found approved
    by (simp add: attempt_def processPayout_def Let_def payout_def db1_def)
  moreover have "attempt env rails pid db = snd (processPayout_failed payout (orText (dr_error r) []) db1)"
    if "payfac_dispatch rails payout = Inr r" for r
    using that found approved fl
    by (simp add: attempt_def processPayout_def Let_def payout_def db1_def payfac_fails_def)
  ultimately obtain message where "attempt env rails pid db = snd (processPayout_failed payout message db1)"
    by (cases "payfac_dispatch rails payout") auto
  with step [of message] show ?thesis by (auto simp: payout_def)
qed

lemma attempt_not_approved:
  assumes "findOne (\<lambda>q. po_id q = pid) (db_payouts db) = Some p" and "po_status p \<noteq> APPROVED"
  shows "attempt env rails pid db = db"
  using assms by (simp add: attempt_def processPayout_def)

lemma attempts_bounded:
  assumes found: "findOne (\<lambda>q. po_id q = pid) (db_payouts db) = Some p"
    and approved: "po_status p = APPROVED"
    and below: "po_retryCount p < po_maxRetries p"
    and fails: "\<forall>q. po_id q = pid \<longrightarrow> payfac_fails rails q"
  shows "\<exists>p'. findOne (\<lambda>q. po_id q = pid) (db_payouts ((attempt env rails pid ^^ n) db)) = Some p'
              \<and> po_maxRetries p' = po_maxRetries p
              \<and> po_retryCount p' = min (po_retryCount p + int n) (po_maxRetries p)
              \<and> po_status p' = (if po_maxRetries p \<le> po_retryCount p + int n then FAILED else APPROVED)"
proof (induction n)
  case 0
  then show ?case using found approved below by simp
next
  case (Suc n)
  then obtain q where q: "findOne (\<lambda>q. po_id q = pid) (db_payouts ((attempt env rails pid ^^ n) db)) = Some q"
    "po_maxRetries q = po_maxRetries p"
    "po_retryCount q = min (po_retryCount p + int n) (po_maxRetries p)"
    "po_status q = (if po_maxRetries p \<le> po_retryCount p + int n then FAILED else APPROVED)"
    by blast
  show ?case
  proof (cases "po_maxRetries p \<le> po_retryCount p + int n")
    case True
    then have "po_status q \<noteq> APPROVED" using q(4) by simp
    with q(1) have "attempt env rails pid ((attempt env rails pid ^^ n) db) = (attempt env rails pid ^^ n) db"
      by (rule attempt_not_approved)
    then show ?thesis using q True by simp
  next
    case False
    then have "po_status q = APPROVED" using q(4) by simp
    from attempt_failure [OF q(1) this fails, of env]
    show ?thesis using q False by (auto simp: min_def)
  qed
qed

lemma save_keeps_other:
  "p \<in> set rows \<Longrightarrow> key e \<noteq> key p \<Longrightarrow> p \<in> set (save key e rows)"
  by (auto simp: save_def)

lemma save_keeps_keys:
  "key e \<in> set (map key rows) \<Longrightarrow> map key (save key e rows) = map key rows"
  by (simp add: save_def)

lemma notifyPayout_payouts: "db_payouts (notifyPayout kind payout db) = db_payouts db"
  by (simp add: notifyPayout_def split: option.splits)

lemma processSinglePayout_keeps_other:
  assumes "p \<in> set (db_payouts db)" and "po_id given \<noteq> po_id p"
  shows "p \<in> set (db_payouts (snd (processSinglePayout env rails given db)))"
  using assms
  by (simp add: processSinglePayout_def Let_def notifyPayoutSuccess_def notifyPayoutFailure_def
        notifyPayout_payouts save_keeps_other split: sum.splits)

lemma processSinglePayout_keeps_ids:
  assumes "po_id given \<in> set (map po_id (db_payouts db))"
  shows "map po_id (db_payouts (snd (processSinglePayout env rails given db))) = map po_id (db_payouts db)"
  using assms
  by (simp add: processSinglePayout_def Let_def notifyPayoutSuccess_def notifyPayoutFailure_def
        notifyPayout_payouts save_keeps_keys split: sum.splits)

lemma sweep_keeps:
  assumes "p \<in> set (db_payouts db)"
    and "\<forall>q \<in> set qs. po_id q \<noteq> po_id p \<and> po_id q \<in> set (map po_id (db_payouts db))"
  shows "p \<in> set (db_payouts (foldl (\<lambda>d payout. snd (processSinglePayout env rails payout d)) db qs))
         \<and> map po_id (db_payouts (foldl (\<lambda>d payout. snd (processSinglePayout env rails payout d)) db qs))
           = map po_id (db_payouts db)"
  using assms
proof (induction qs arbitrary: db)
  case Nil
  then show ?case by simp
next
  case (Cons q qs)
  let ?d = "snd (processSinglePayout env rails q db)"
  have ids: "map po_id (db_payouts ?d) = map po_id (db_payouts db)"
    using Cons.prems(2) by (simp add: processSinglePayout_keeps_ids)
  have "p \<in> set (db_payouts ?d)"
    using Cons.prems by (simp add: processSinglePayout_keeps_other)
  moreover have "\<forall>q \<in> set qs. po_id q \<noteq> po_id p \<and> po_id q \<in> set (map po_id (db_payouts ?d))"
    using Cons.prems(2) ids by simp
  ultimately show ?case using Cons.IH [of ?d] ids by simp
qed

lemma exhausted_not_retriable:
  "po_maxRetries p \<le> po_retryCount p \<Longrightarrow> p \<notin> set (retriable db)"
  by (simp add: retriable_def)

lemma retryFailedPayouts_keeps:
  assumes member: "p \<in> set (db_payouts db)"
    and ids: "distinct (map po_id (db_payouts db))"
    and exhausted: "po_maxRetries p \<le> po_retryCount p"
  shows "p \<in> set (db_payouts (retryFailedPayouts env rails db))"
    and "map po_id (db_payouts (retryFailedPayouts env rails db)) = map po_id (db_payouts db)"
proof -
  have "\<forall>q \<in> set (retriable db). po_id q \<noteq> po_id p \<and> po_id q \<in> set (map po_id (db_payouts db))"
  proof
    fix q assume q: "q \<in> set (retriable db)"
    then have qm: "q \<in> set (db_payouts db)" and "po_retryCount q < po_maxRetries q"
      by (simp_all add: retriable_def)
    with exhausted have "q \<noteq> p" by auto
    with qm member ids have "po_id q \<noteq> po_id p"
      by (meson distinct_map inj_onD)
    with qm show "po_id q \<noteq> po_id p \<and> po_id q \<in> set (map po_id (db_payouts db))" by simp
  qed
  with member have
    "p \<in> set (db_payouts (foldl (\<lambda>d payout. snd (processSinglePayout env rails payout d)) db (retriable db)))
     \<and> map po_id (db_payouts (foldl (\<lambda>d payout. snd (processSinglePayout env rails payout d)) db (retriable db)))
       = map po_id (db_payouts db)"
    by (rule sweep_keeps)
  then show "p \<in> set (db_payouts (retryFailedPayouts env rails db))"
    and "map po_id (db_payouts (retryFailedPayouts env rails db)) = map po_id (db_payouts db)"
    by (simp_all add: retryFailedPayouts_def)
qed

lemma sweeps_keep:
  assumes member: "p \<in> set (db_payouts db)"
    and ids: "distinct (map po_id (db_payouts db))"
    and exhausted: "po_maxRetries p \<le> po_retryCount p"
  shows "p \<in> set (db_payouts ((retryFailedPayouts env rails ^^ n) db))
         \<and> map po_id (db_payouts ((retryFailedPayouts env rails ^^ n) db)) = map po_id (db_payouts db)"
proof (induction n)
  case 0
  then show ?case using member by simp
next
  case (Suc n)
  let ?d = "(retryFailedPayouts env rails ^^ n) db"
  from Suc have m: "p \<in> set (db_payouts ?d)" and i: "map po_id (db_payouts ?d) = map po_id (db_payouts db)"
    by simp_all
  from i ids have d: "distinct (map po_id (db_payouts ?d))" by simp
  from retryFailedPayouts_keeps [OF m d exhausted, of env rails] i
  show ?case by simp
qed

lemma save_member: "e \<in> set (save key e rows)"
  by (auto simp: save_def)

lemma find_unique:
  "p \<in> set rows \<Longrightarrow> distinct (map key rows) \<Longrightarrow> find (\<lambda>q. key q = key p) rows = Some p"
  by (induction rows) (auto simp: image_iff)

lemma processSinglePayout_failure_row:
  assumes "dispatch_fails rails (q\<lparr> po_status := PROCESSING, po_initiatedAt := Some (env_now env) \<rparr>)"
  shows "\<exists>q'. q' \<in> set (db_payouts (snd (processSinglePayout env rails q d)))
              \<and> po_id q' = po_id q \<and> po_status q' = FAILED
              \<and> po_retryCount q' = po_retryCount q + 1 \<and> po_maxRetries q' = po_maxRetries q"
proof (cases "dispatch rails (q\<lparr> po_status := PROCESSING, po_initiatedAt := Some (env_now env) \<rparr>)")
  case (Inl e)
  let ?f = "q\<lparr> po_status := PROCESSING, po_initiatedAt := Some (env_now env), po_status := FAILED,
               po_failureMessage := Some (errorMessage e), po_retryCount := po_retryCount q + 1 \<rparr>"
  have "?f \<in> set (db_payouts (snd (processSinglePayout env rails q d)))"
    using Inl by (simp add: processSinglePayout_def Let_def save_member)
  then show ?thesis by (intro exI [of _ ?f]) simp
next
  case (Inr r)
  with assms have nr: "\<not> pr_success r" by (simp add: dispatch_fails_def)
  let ?f = "q\<lparr> po_status := PROCESSING, po_initiatedAt := Some (env_now env), po_status := FAILED,
               po_failureMessage := pr_message r, po_retryCount := po_retryCount q + 1 \<rparr>"
  have "?f \<in> set (db_payouts (snd (processSinglePayout env rails q d)))"
    using Inr nr
    by (simp add: processSinglePayout_def Let_def save_member notifyPayoutFailure_def notifyPayout_payouts)
  then show ?thesis by (intro exI [of _ ?f]) simp
qed

lemma fold_keeps_other:
  assumes "p \<in> set (db_payouts d)" and "\<forall>q \<in> set qs. po_id q \<noteq> po_id p"
  shows "p \<in> set (db_payouts (foldl (\<lambda>d payout. snd (processSinglePayout env rails payout d)) d qs))"
  using assms
  by (induction qs arbitrary: d) (simp_all add: processSinglePayout_keeps_other)

lemma fold_keeps_ids:
  assumes "\<forall>q \<in> set qs. po_id q \<in> set (map po_id (db_payouts d))"
  shows "map po_id (db_payouts (foldl (\<lambda>d payout. snd (processSinglePayout env rails payout d)) d qs))
         = map po_id (db_payouts d)"
  using assms
proof (induction qs arbitrary: d)
  case Nil
  then show ?case by simp
next
  case (Cons q qs)
  let ?d = "snd (processSinglePayout env rails q d)"
  have ids: "map po_id (db_payouts ?d) = map po_id (db_payouts d)"
    using Cons.prems by (simp add: processSinglePayout_keeps_ids)
  with Cons.prems have "\<forall>q \<in> set qs. po_id q \<in> set (map po_id (db_payouts ?d))" by simp
  from Cons.IH [OF this] ids show ?case by simp
qed

lemma fold_failure:
  assumes "p \<in> set qs" and "distinct (map po_id qs)"
    and "\<forall>q. po_id q = po_id p \<longrightarrow> dispatch_fails rails q"
  shows "\<exists>p'. p' \<in> set (db_payouts (foldl (\<lambda>d payout. snd (processSinglePayout env rails payout d)) d qs))
              \<and> po_id p' = po_id p \<and> po_status p' = FAILED
              \<and> po_retryCount p' = po_retryCount p + 1 \<and> po_maxRetries p' = po_maxRetries p"
  using assms(1,2)
proof (induction qs arbitrary: d)
  case Nil
  then show ?case by simp
next
  case (Cons q qs)
  let ?d = "snd (processSinglePayout env rails q d)"
  show ?case
  proof (cases "q = p")
    case True
    have "dispatch_fails rails (p\<lparr> po_status := PROCESSING, po_initiatedAt := Some (env_now env) \<rparr>)"
      using assms(3) by simp
    from processSinglePayout_failure_row [OF this, where d = d]
    obtain p' where p': "p' \<in> set (db_payouts (snd (processSinglePayout env rails p d)))"
      "po_id p' = po_id p" "po_status p' = FAILED"
      "po_retryCount p' = po_retryCount p + 1" "po_maxRetries p' = po_maxRetries p"
      by blast
    have "po_id p \<notin> set (map po_id qs)"
      using Cons.prems(2) True by simp
    then have "\<forall>r \<in> set qs. po_id r \<noteq> po_id p'"
      unfolding p'(2) by (metis image_eqI list.set_map)
    with p'(1) have "p' \<in> set (db_payouts
        (foldl (\<lambda>d payout. snd (processSinglePayout env rails payout d))
           (snd (processSinglePayout env rails p d)) qs))"
      by (rule fold_keeps_other)
    with p' True show ?thesis by auto
  next
    case False
    with Cons.prems have "p \<in> set qs" "distinct (map po_id qs)" by simp_all
    from Cons.IH [OF this, where d = ?d] show ?thesis by simp
  qed
qed

lemma retryFailedPayouts_ids:
  "map po_id (db_payouts (retryFailedPayouts env rails db)) = map po_id (db_payouts db)"
  unfolding retryFailedPayouts_def
  by (rule fold_keeps_ids) (auto simp: retriable_def)

lemma sweep_failure:
  assumes member: "p \<in> set (db_payouts db)"
    and ids: "distinct (map po_id (db_payouts db))"
    and failed: "po_status p = FAILED"
    and below: "po_retryCount p < po_maxRetries p"
    and fails: "\<forall>q. po_id q = po_id p \<longrightarrow> dispatch_fails rails q"
  shows "\<exists>p'. p' \<in> set (db_payouts (retryFailedPayouts env rails db))
              \<and> po_id p' = po_id p \<and> po_status p' = FAILED
              \<and> po_retryCount p' = po_retryCount p + 1 \<and> po_maxRetries p' = po_maxRetries p"
proof -
  have "p \<in> set (retriable db)"
    using member failed below by (simp add: retriable_def)
  moreover have "distinct (map po_id (retriable db))"
    using ids by (simp add: retriable_def distinct_map_filter)
  ultimately show ?thesis
    unfolding retryFailedPayouts_def using fails by (rule fold_failure)
qed

lemma sweeps_exhaust:
  assumes member: "p \<in> set (db_payouts db)"
    and ids: "distinct (map po_id (db_payouts db))"
    and failed: "po_status p = FAILED"
    and below: "po_retryCount p \<le> po_maxRetries p"
    and fails: "\<forall>q. po_id q = po_id p \<longrightarrow> dispatch_fails rails q"
  shows "\<exists>p'. p' \<in> set (db_payouts ((retryFailedPayouts env rails ^^ n) db))
              \<and> po_id p' = po_id p \<and> po_status p' = FAILED
              \<and> po_retryCount p' = min (po_retryCount p + int n) (po_maxRetries p)
              \<and> po_maxRetries p' = po_maxRetries p"
proof (induction n)
  case 0
  then show ?case using member failed below by auto
next
  case (Suc n)
  let ?d = "(retryFailedPayouts env rails ^^ n) db"
  from Suc obtain q where q: "q \<in> set (db_payouts ?d)" "po_id q = po_id p" "po_status q = FAILED"
    "po_retryCount q = min (po_retryCount p + int n) (po_maxRetries p)"
    "po_maxRetries q = po_maxRetries p"
    by blast
  have "map po_id (db_payouts ?d) = map po_id (db_payouts db)"
    by (induction n) (simp_all add: retryFailedPayouts_ids)
  with ids have d: "distinct (map po_id (db_payouts ?d))" by simp
  show ?case
  proof (cases "po_retryCount p + int n < po_maxRetries p")
    case True
    then have "po_retryCount q < po_maxRetries q" using q(4,5) by simp
    from sweep_failure [OF q(1) d q(3) this, where rails = rails and env = env] fails q(2)
    obtain q' where "q' \<in> set (db_payouts (retryFailedPayouts env rails ?d))"
      "po_id q' = po_id q" "po_status q' = FAILED"
      "po_retryCount q' = po_retryCount q + 1" "po_maxRetries q' = po_maxRetries q"
      by auto
    with q True show ?thesis by (intro exI [of _ q']) (simp add: min_def)
  next
    case False
    then have "po_maxRetries q \<le> po_retryCount q" using q(4,5) by simp
    from retryFailedPayouts_keeps(1) [OF q(1) d this, where env = env and rails = rails]
    have "q \<in> set (db_payouts (retryFailedPayouts env rails ?d))" .
    with q False show ?thesis by (intro exI [of _ q]) (simp add: min_def)
  qed
qed

lemma webhook_completes:
  assumes "findOne (\<lambda>q. po_processorReference q = Some reference) (db_payouts db) = Some p"
  shows "fst (handlePayoutWebhook env provider reference ''completed'' data db) = Inr ()
         \<and> findOne (\<lambda>q. po_processorReference q = Some reference)
             (db_payouts (snd (handlePayoutWebhook env provider reference ''completed'' data db)))
           = Some (p\<lparr> po_status := COMPLETED, po_completedAt := Some (env_now env),
                       po_processorResponse := data \<rparr>)"
proof -
  let ?c = "p\<lparr> po_status := COMPLETED, po_completedAt := Some (env_now env), po_processorResponse := data \<rparr>"
  have ref: "po_processorReference p = Some reference"
    using assms by (auto simp: findOne_def find_Some_iff)
  have "find (\<lambda>q. po_processorReference q = Some reference) (save po_id ?c (db_payouts db)) = Some ?c"
    by (rule find_save_same [where p = p]) (use assms ref in \<open>simp_all add: findOne_def\<close>)
  then show ?thesis
    using assms
    by (simp add: handlePayoutWebhook_def Let_def findOne_def notifyPayoutSuccess_def notifyPayout_payouts)
qed

lemma sweeps_ids:
  "map po_id (db_payouts ((retryFailedPayouts env rails ^^ n) db)) = map po_id (db_payouts db)"
  by (induction n) (simp_all add: retryFailedPayouts_ids)

lemma sweeps_exhaust_lookup:
  assumes member: "p \<in> set (db_payouts db)"
    and ids: "distinct (map po_id (db_payouts db))"
    and failed: "po_status p = FAILED"
    and below: "po_retryCount p \<le> po_maxRetries p"
    and fails: "\<forall>q. po_id q = po_id p \<longrightarrow> dispatch_fails rails q"
  shows "\<exists>p'. findOne (\<lambda>q. po_id q = po_id p) (db_payouts ((retryFailedPayouts env rails ^^ n) db)) = Some p'
              \<and> po_status p' = FAILED
              \<and> po_retryCount p' = min (po_retryCount p + int n) (po_maxRetries p)
              \<and> po_maxRetries p' = po_maxRetries p"
proof -
  from sweeps_exhaust [OF assms, where env = env and n = n]
  obtain p' where p': "p' \<in> set (db_payouts ((retryFailedPayouts env rails ^^ n) db))"
    "po_id p' = po_id p" "po_status p' = FAILED"
    "po_retryCount p' = min (po_retryCount p + int n) (po_maxRetries p)"
    "po_maxRetries p' = po_maxRetries p"
    by blast
  have "distinct (map po_id (db_payouts ((retryFailedPayouts env rails ^^ n) db)))"
    using ids by (simp add: sweeps_ids)
  with p'(1) have "find (\<lambda>q. po_id q = po_id p') (db_payouts ((retryFailedPayouts env rails ^^ n) db)) = Some p'"
    by (rule find_unique)
  with p' show ?thesis by (auto simp: findOne_def)
qed

text \<open>
  Claim C3, as the code has it. A payout that is approved with \<open>retryCount < maxRetries\<close> and
  whose processing fails every time goes back to approved after each failure as long as the
  retry count stays below \<open>maxRetries\<close>, and is failed from the failure that brings the
  count to \<open>maxRetries\<close> on: further calls of \<open>processPayout\<close> leave it failed with that
  count. In the service with the retry sweep a failed payout whose transfer fails every time
  stays failed, each sweep adds one to its retry count while the count is below
  \<open>maxRetries\<close>, and from \<open>maxRetries\<close> on the sweeps leave the count alone. A payout with
  \<open>retryCount \<ge> maxRetries\<close> is never among the payouts the retry sweep re-attempts, and any
  number of sweeps leaves it as it is (payout ids being unique). Failed is not terminal for
  confirmations, though: \<open>handlePayoutWebhook\<close> and \<open>confirmPayoutCompletion\<close> set the payout
  of a processor reference to completed whatever its status and retry count.
\<close>

theorem retry_bound:
  "(findOne (\<lambda>q. po_id q = pid) (db_payouts db) = Some p \<and> po_status p = APPROVED
      \<and> po_retryCount p < po_maxRetries p \<and> (\<forall>q. po_id q = pid \<longrightarrow> payfac_fails rails q)
    \<longrightarrow> (\<exists>p'. findOne (\<lambda>q. po_id q = pid) (db_payouts ((attempt env rails pid ^^ n) db)) = Some p'
              \<and> po_maxRetries p' = po_maxRetries p
              \<and> po_retryCount p' = min (po_retryCount p + int n) (po_maxRetries p)
              \<and> po_status p'
                = (if po_maxRetries p \<le> po_retryCount p + int n then FAILED else APPROVED)))
   \<and> (y \<in> set (db_payouts db2) \<and> distinct (map po_id (db_payouts db2)) \<and> po_status y = FAILED
        \<and> po_retryCount y \<le> po_maxRetries y \<and> (\<forall>q. po_id q = po_id y \<longrightarrow> dispatch_fails rails2 q)
      \<longrightarrow> (\<exists>y'. findOne (\<lambda>q. po_id q = po_id y)
                   (db_payouts ((retryFailedPayouts env2 rails2 ^^ k) db2)) = Some y'
                \<and> po_status y' = FAILED
                \<and> po_retryCount y' = min (po_retryCount y + int k) (po_maxRetries y)
                \<and> po_maxRetries y' = po_maxRetries y))
   \<and> (x \<in> set (db_payouts db') \<and> distinct (map po_id (db_payouts db'))
        \<and> po_maxRetries x \<le> po_retryCount x
      \<longrightarrow> x \<notin> set (retriable ((retryFailedPayouts env' rails' ^^ m) db'))
          \<and> x \<in> set (db_payouts ((retryFailedPayouts env' rails' ^^ m) db')))
   \<and> (findOne (\<lambda>q. po_processorReference q = Some reference) (db_payouts db3) = Some z
      \<longrightarrow> map_option po_status
            (findOne (\<lambda>q. po_processorReference q = Some reference)
               (db_payouts (snd (handlePayoutWebhook env3 provider reference ''completed'' data db3))))
          = Some COMPLETED
          \<and> map_option po_status
              (findOne (\<lambda>q. po_processorReference q = Some reference)
                 (db_payouts (confirmPayoutCompletion env3 reference ''completed'' data db3)))
            = Some COMPLETED)"
proof (intro conjI impI)
  assume "findOne (\<lambda>q. po_id q = pid) (db_payouts db) = Some p \<and> po_status p = APPROVED
      \<and> po_retryCount p < po_maxRetries p \<and> (\<forall>q. po_id q = pid \<longrightarrow> payfac_fails rails q)"
  then show "\<exists>p'. findOne (\<lambda>q. po_id q = pid) (db_payouts ((attempt env rails pid ^^ n) db)) = Some p'
              \<and> po_maxRetries p' = po_maxRetries p
              \<and> po_retryCount p' = min (po_retryCount p + int n) (po_maxRetries p)
              \<and> po_status p'
                = (if po_maxRetries p \<le> po_retryCount p + int n then FAILED else APPROVED)"
    using attempts_bounded [where pid = pid and db = db and p = p and rails = rails and env = env and n = n]
    by blast
next
  assume "y \<in> set (db_payouts db2) \<and> distinct (map po_id (db_payouts db2)) \<and> po_status y = FAILED
        \<and> po_retryCount y \<le> po_maxRetries y \<and> (\<forall>q. po_id q = po_id y \<longrightarrow> dispatch_fails rails2 q)"
  then show "\<exists>y'. findOne (\<lambda>q. po_id q = po_id y)
                   (db_payouts ((retryFailedPayouts env2 rails2 ^^ k) db2)) = Some y'
                \<and> po_status y' = FAILED
                \<and> po_retryCount y' = min (po_retryCount y + int k) (po_maxRetries y)
                \<and> po_maxRetries y' = po_maxRetries y"
    using sweeps_exhaust_lookup [where p = y and db = db2 and rails = rails2 and env = env2 and n = k]
    by blast
next
  assume a: "x \<in> set (db_payouts db') \<and> distinct (map po_id (db_payouts db'))
        \<and> po_maxRetries x \<le> po_retryCount x"
  then show "x \<notin> set (retriable ((retryFailedPayouts env' rails' ^^ m) db'))"
    using exhausted_not_retriable [where p = x and db = "(retryFailedPayouts env' rails' ^^ m) db'"]
    by blast
  from a show "x \<in> set (db_payouts ((retryFailedPayouts env' rails' ^^ m) db'))"
    using sweeps_keep [where p = x and db = db' and env = env' and rails = rails' and n = m]
    by blast
next
  assume f: "findOne (\<lambda>q. po_processorReference q = Some reference) (db_payouts db3) = Some z"
  from webhook_completes [OF f, where env = env3 and provider = provider and data = data]
  show "map_option po_status
            (findOne (\<lambda>q. po_processorReference q = Some reference)
               (db_payouts (snd (handlePayoutWebhook env3 provider reference ''completed'' data db3))))
          = Some COMPLETED"
    by simp
  from confirm_completed_once(1) [OF f, where env = env3 and details = data]
  show "map_option po_status
              (findOne (\<lambda>q. po_processorReference q = Some reference)
                 (db_payouts (confirmPayoutCompletion env3 reference ''completed'' data db3)))
            = Some COMPLETED"
    by simp
qed

lemma throwingRails_fail: "payfac_fails throwingRails q"
  by (simp add: payfac_fails_def payfac_dispatch_def payfac_processInstapayPayout_def
      payfac_processBankTransferPayout_def payfac_processWalletPayout_def throwingRails_def)

lemma refusingRails_fail: "dispatch_fails refusingRails q"
  by (simp add: dispatch_fails_def dispatch_def processInstapayPayout_def processBankTransferPayout_def
      processWalletPayout_def transferResult_def refusingRails_def Let_def)

text \<open>
  With \<open>maxRetries = 3\<close>. On rails that time out, \<open>processPayout\<close> leaves the payout approved
  with count 2 after two failures, failed with count 3 after the third and after a fourth
  call. On rails that refuse, the retry sweep takes a failed payout to count 2 and 3 in two
  and three sweeps and no further in five, and leaves its exhausted neighbour alone. The
  failed payout of the history, with count 3, is completed by the late webhook.
\<close>

theorem retry_bound_witness:
  "findOne (\<lambda>q. po_id q = ''p1'') (db_payouts approvedDb) = Some (examplePayout ''p1'' INSTAPAY APPROVED)
   \<and> po_retryCount (examplePayout ''p1'' INSTAPAY APPROVED) = 0
   \<and> po_maxRetries (examplePayout ''p1'' INSTAPAY APPROVED) = 3
   \<and> map_option (\<lambda>q. (po_status q, po_retryCount q))
        (findOne (\<lambda>q. po_id q = ''p1'')
           (db_payouts ((attempt exampleEnv throwingRails ''p1'' ^^ 2) approvedDb)))
      = Some (APPROVED, 2)
   \<and> map_option (\<lambda>q. (po_status q, po_retryCount q))
        (findOne (\<lambda>q. po_id q = ''p1'')
           (db_payouts ((attempt exampleEnv throwingRails ''p1'' ^^ 3) approvedDb)))
      = Some (FAILED, 3)
   \<and> map_option (\<lambda>q. (po_status q, po_retryCount q))
        (findOne (\<lambda>q. po_id q = ''p1'')
           (db_payouts ((attempt exampleEnv throwingRails ''p1'' ^^ 4) approvedDb)))
      = Some (FAILED, 3)
   \<and> map po_id (db_payouts retryDb) = [''p1'', ''p2'']
   \<and> map_option (\<lambda>q. (po_status q, po_retryCount q))
        (findOne (\<lambda>q. po_id q = ''p2'')
           (db_payouts ((retryFailedPayouts exampleEnv refusingRails ^^ 2) retryDb)))
      = Some (FAILED, 2)
   \<and> map_option (\<lambda>q. (po_status q, po_retryCount q))
        (findOne (\<lambda>q. po_id q = ''p2'')
           (db_payouts ((retryFailedPayouts exampleEnv refusingRails ^^ 3) retryDb)))
      = Some (FAILED, 3)
   \<and> map_option (\<lambda>q. (po_status q, po_retryCount q))
        (findOne (\<lambda>q. po_id q = ''p2'')
           (db_payouts ((retryFailedPayouts exampleEnv refusingRails ^^ 5) retryDb)))
      = Some (FAILED, 3)
   \<and> po_status exhaustedPayout = FAILED
   \<and> exhaustedPayout \<notin> set (retriable ((retryFailedPayouts exampleEnv refusingRails ^^ 2) retryDb))
   \<and> exhaustedPayout \<in> set (db_payouts ((retryFailedPayouts exampleEnv refusingRails ^^ 2) retryDb))
   \<and> map_option po_status (findOne (\<lambda>q. po_processorReference q = Some ''X1'') (db_payouts history4))
     = Some FAILED
   \<and> map_option po_status (findOne (\<lambda>q. po_processorReference q = Some ''X1'') (db_payouts history5))
     = Some COMPLETED"
proof -
  let ?p = "examplePayout ''p1'' INSTAPAY APPROVED"
  let ?y = "examplePayout ''p2'' BANK_TRANSFER FAILED"
  have found: "findOne (\<lambda>q. po_id q = ''p1'') (db_payouts approvedDb) = Some ?p"
    by (simp add: approvedDb_def payoutsDb_def findOne_def examplePayout_def)
  have facts: "po_status ?p = APPROVED" "po_retryCount ?p = 0" "po_maxRetries ?p = 3"
    by (simp_all add: examplePayout_def)
  have fails: "\<forall>q. po_id q = ''p1'' \<longrightarrow> payfac_fails throwingRails q"
    by (simp add: throwingRails_fail)
  have below: "po_retryCount ?p < po_maxRetries ?p"
    by (simp add: facts)
  have a: "map_option (\<lambda>q. (po_status q, po_retryCount q))
        (findOne (\<lambda>q. po_id q = ''p1'')
           (db_payouts ((attempt exampleEnv throwingRails ''p1'' ^^ n) approvedDb)))
      = Some (if 3 \<le> int n then FAILED else APPROVED, min (int n) 3)" for n
  proof -
    from retry_bound [where pid = "''p1''" and db = approvedDb and p = ?p and rails = throwingRails
        and env = exampleEnv and n = n, THEN conjunct1] found facts(1) below fails
    obtain p' where "findOne (\<lambda>q. po_id q = ''p1'')
           (db_payouts ((attempt exampleEnv throwingRails ''p1'' ^^ n) approvedDb)) = Some p'"
      "po_retryCount p' = min (po_retryCount ?p + int n) (po_maxRetries ?p)"
      "po_status p' = (if po_maxRetries ?p \<le> po_retryCount ?p + int n then FAILED else APPROVED)"
      by blast
    then show ?thesis by (simp add: facts)
  qed
  have ids: "map po_id (db_payouts retryDb) = [''p1'', ''p2'']"
    by (simp add: retryDb_def payoutsDb_def exhaustedPayout_def examplePayout_def)
  have yfacts: "?y \<in> set (db_payouts retryDb)" "po_status ?y = FAILED" "po_id ?y = ''p2''"
    "po_retryCount ?y = 0" "po_maxRetries ?y = 3"
    by (simp_all add: retryDb_def payoutsDb_def examplePayout_def)
  have yfails: "\<forall>q. po_id q = po_id ?y \<longrightarrow> dispatch_fails refusingRails q"
    by (simp add: refusingRails_fail)
  have distinct: "distinct (map po_id (db_payouts retryDb))"
    by (simp add: ids)
  have ybelow: "po_retryCount ?y \<le> po_maxRetries ?y"
    by (simp add: yfacts)
  have b: "map_option (\<lambda>q. (po_status q, po_retryCount q))
        (findOne (\<lambda>q. po_id q = ''p2'')
           (db_payouts ((retryFailedPayouts exampleEnv refusingRails ^^ k) retryDb)))
      = Some (FAILED, min (int k) 3)" for k
  proof -
    from retry_bound [where y = ?y and ?db2.0 = retryDb and ?rails2.0 = refusingRails
        and ?env2.0 = exampleEnv and k = k, THEN conjunct2, THEN conjunct1]
      yfacts(1,2) distinct ybelow yfails
    obtain y' where "findOne (\<lambda>q. po_id q = po_id ?y)
           (db_payouts ((retryFailedPayouts exampleEnv refusingRails ^^ k) retryDb)) = Some y'"
      "po_status y' = FAILED"
      "po_retryCount y' = min (po_retryCount ?y + int k) (po_maxRetries ?y)"
      by blast
    then show ?thesis by (simp add: yfacts)
  qed
  have ex: "po_status exhaustedPayout = FAILED" "po_maxRetries exhaustedPayout \<le> po_retryCount exhaustedPayout"
    "exhaustedPayout \<in> set (db_payouts retryDb)"
    by (simp_all add: retryDb_def payoutsDb_def exhaustedPayout_def examplePayout_def)
  have c: "exhaustedPayout \<notin> set (retriable ((retryFailedPayouts exampleEnv refusingRails ^^ 2) retryDb))
   \<and> exhaustedPayout \<in> set (db_payouts ((retryFailedPayouts exampleEnv refusingRails ^^ 2) retryDb))"
    using retry_bound [where x = exhaustedPayout and db' = retryDb and env' = exampleEnv
        and rails' = refusingRails and m = 2, THEN conjunct2, THEN conjunct2, THEN conjunct1] ex ids
    by simp
  have h4: "map_option po_status (findOne (\<lambda>q. po_processorReference q = Some ''X1'') (db_payouts history4))
     = Some FAILED"
    by code_simp
  then obtain z where z: "findOne (\<lambda>q. po_processorReference q = Some ''X1'') (db_payouts history4) = Some z"
    by blast
  have d: "map_option po_status (findOne (\<lambda>q. po_processorReference q = Some ''X1'') (db_payouts history5))
     = Some COMPLETED"
    using retry_bound [where ?db3.0 = history4 and reference = "''X1''" and z = z and ?env3.0 = exampleEnv
        and provider = "''instapay''" and data = None,
        THEN conjunct2, THEN conjunct2, THEN conjunct2] z
    by (simp add: history5_def)
  show ?thesis
    using found facts a [of 2] a [of 3] a [of 4] ids b [of 2] b [of 3] b [of 5] ex(1) c h4 d by simp
qed

text \<open>
  Claim C3 as stated fails on terminality. A payout is sent with success (reference \<open>X1\<close>),
  a webhook reports it failed (count 1), two retry sweeps are refused (count 3 with
  \<open>maxRetries = 3\<close>), a third sweep finds nothing to retry, and a late webhook for \<open>X1\<close>
  then moves the failed, exhausted payout to completed.
\<close>

theorem retry_bound_counterexample:
  "payoutStates history1 = [(COMPLETED, 0, 3)]
   \<and> payoutStates history2 = [(FAILED, 1, 3)]
   \<and> payoutStates history3 = [(FAILED, 3, 3)]
   \<and> retriable history3 = []
   \<and> payoutStates history4 = [(FAILED, 3, 3)]
   \<and> payoutStates history5 = [(COMPLETED, 3, 3)]"
  by code_simp

section \<open>The bank-transfer batch\<close>

text \<open>
  For every batch: a refusal that is returned, not thrown, changes no member's status, retry
  count or failure message; an acceptance leaves every member that is in the table sent.
\<close>

lemma batch_refused_members_unchanged:
  assumes "bank_submitBatch rails (env_batchReference env) payouts = Inr False"
  shows "memberStates (processBankTransferBatch env rails payouts db) = memberStates db"
proof -
  have "map (\<lambda>p. (po_status p, po_retryCount p, po_failureMessage p))
          (map (\<lambda>p. if c p then p\<lparr> po_batchId := b \<rparr> else p) rows)
        = map (\<lambda>p. (po_status p, po_retryCount p, po_failureMessage p)) rows" for c b rows
    by (induction rows) auto
  with assms show ?thesis
    by (simp add: processBankTransferBatch_def memberStates_def updateWhere_def Let_def)
qed

lemma batch_accepted_members_sent:
  assumes "bank_submitBatch rails (env_batchReference env) payouts = Inr True"
    and "p \<in> set (db_payouts (processBankTransferBatch env rails payouts db))"
    and "po_id p \<in> set (map po_id payouts)"
  shows "po_status p = SENT"
  using assms
  by (auto simp: processBankTransferBatch_def updateWhere_def Let_def split: if_splits)

text \<open>
  Claim C6 at a batch of two pending bank transfers. When \<open>submitBatch\<close> returns
  \<open>success: false\<close> the batch is marked failed but its members stay pending, with no failure
  message and the retry count they had; when \<open>submitBatch\<close> throws, every member is marked
  failed with the error message and its retry count goes up by one; when it succeeds, every
  member is sent.
\<close>

theorem batch_refused_leaves_members_pending:
  "bank_submitBatch refusingRails ''BATCH-20240109-AAAA'' batchMembers = Inr False
   \<and> memberStates (processBankTransferBatch exampleEnv refusingRails batchMembers (payoutsDb batchMembers))
     = [(PENDING, 0, None), (PENDING, 0, None)]
   \<and> map pb_status
        (db_payoutBatches (processBankTransferBatch exampleEnv refusingRails batchMembers (payoutsDb batchMembers)))
     = [''failed'']
   \<and> memberStates (processBankTransferBatch exampleEnv throwingRails batchMembers (payoutsDb batchMembers))
     = [(FAILED, 1, Some ''timeout''), (FAILED, 1, Some ''timeout'')]
   \<and> memberStates (processBankTransferBatch exampleEnv acceptingRails batchMembers (payoutsDb batchMembers))
     = [(SENT, 0, None), (SENT, 0, None)]"
  by code_simp

end
